theory Spec2Isabelle
  imports Complex_Main "HOL-Library.Multiset"
begin

section \<open>JavaScript helpers\<close>

text \<open>
  The server is TypeScript.  A JavaScript string is modelled as the \<^typ>\<open>string\<close> of
  the bytes of its UTF-8 encoding: the operations the services use (splitting at \<open>-\<close>,
  skipping white space, reading decimal digits, comparing, testing for the empty string)
  give the same result on the bytes as on the code units.  \<open>undefined\<close> is
  \<^term>\<open>None\<close>.  Numbers that the server computes itself or reads back from an
  \<open>INTEGER\<close> column (indices of the state, stored milliseconds, runs) are
  \<^typ>\<open>int\<close>.  A number that arrives from outside (the latency of a request, the
  \<open>correctIndex\<close> and \<open>correctValue\<close> of a pack's JSON) is any finite number, a
  \<^typ>\<open>real\<close>.  A read \<open>xs[i]\<close> of an array yields \<open>undefined\<close> out of range;
  a property read on \<open>undefined\<close> throws a \<open>TypeError\<close>.
\<close>

definition js_index :: "'a list \<Rightarrow> int \<Rightarrow> 'a option" where
  "js_index xs i = (if 0 \<le> i \<and> i < int (length xs) then Some (xs ! nat i) else None)"

text \<open>\<open>xs[i] = v\<close>: an assignment past the end extends the array, the hole reads as
  \<open>undefined\<close> (serialised as \<open>null\<close>).\<close>

text \<open>\<open>xs[i]\<close> for an index that is any number or \<open>undefined\<close>: only a
  non-negative integer below the length names an element.\<close>

definition js_index_num :: "'a list \<Rightarrow> real option \<Rightarrow> 'a option" where
  "js_index_num xs i =
     (case i of
        None \<Rightarrow> None
      | Some r \<Rightarrow> if r = of_int \<lfloor>r\<rfloor> then js_index xs \<lfloor>r\<rfloor> else None)"

text \<open>A comparison with \<open>undefined\<close> is false.\<close>

definition num_lt :: "real option \<Rightarrow> real \<Rightarrow> bool" where
  "num_lt i x = (case i of None \<Rightarrow> False | Some r \<Rightarrow> r < x)"

definition num_ge :: "real option \<Rightarrow> real \<Rightarrow> bool" where
  "num_ge i x = (case i of None \<Rightarrow> False | Some r \<Rightarrow> r \<ge> x)"

definition js_assign :: "'a option list \<Rightarrow> nat \<Rightarrow> 'a \<Rightarrow> 'a option list" where
  "js_assign xs i v =
     (if i < length xs then xs[i := Some v]
      else xs @ replicate (i - length xs) None @ [Some v])"

text \<open>
  White space and line terminators of ECMAScript, which \<open>trim\<close>, \<open>parseInt\<close> and
  \<open>parseFloat\<close> skip, by the bytes of their UTF-8 encoding: one byte for U+0009 to
  U+000D and U+0020; two bytes for U+00A0; three bytes for U+1680, U+2000 to U+200A, U+2028,
  U+2029, U+202F, U+205F, U+3000 and U+FEFF.
\<close>

definition isWhiteSpace1 :: "char \<Rightarrow> bool" where
  "isWhiteSpace1 a = (a \<in> set [CHR 0x09, CHR 0x0A, CHR 0x0B, CHR 0x0C, CHR 0x0D, CHR 0x20])"

definition isWhiteSpace2 :: "char \<Rightarrow> char \<Rightarrow> bool" where
  "isWhiteSpace2 a b = (a = CHR 0xC2 \<and> b = CHR 0xA0)"

definition isWhiteSpace3 :: "char \<Rightarrow> char \<Rightarrow> char \<Rightarrow> bool" where
  "isWhiteSpace3 a b c =
     ((a = CHR 0xE1 \<and> b = CHR 0x9A \<and> c = CHR 0x80) \<or>
      (a = CHR 0xE2 \<and> b = CHR 0x80 \<and>
         (((128::nat) \<le> of_char c \<and> (of_char c :: nat) \<le> 138) \<or>
          c \<in> set [CHR 0xA8, CHR 0xA9, CHR 0xAF])) \<or>
      (a = CHR 0xE2 \<and> b = CHR 0x81 \<and> c = CHR 0x9F) \<or>
      (a = CHR 0xE3 \<and> b = CHR 0x80 \<and> c = CHR 0x80) \<or>
      (a = CHR 0xEF \<and> b = CHR 0xBB \<and> c = CHR 0xBF))"

text \<open>Skipping white space at the front.  The two tests say which pairs and triples of
  bytes are white space, so that the same function serves the reversed string.\<close>

fun skipWhiteSpace ::
  "(char \<Rightarrow> char \<Rightarrow> bool) \<Rightarrow> (char \<Rightarrow> char \<Rightarrow> char \<Rightarrow> bool) \<Rightarrow> string \<Rightarrow> string" where
  "skipWhiteSpace two three [] = []"
| "skipWhiteSpace two three (a # s) =
     (if isWhiteSpace1 a then skipWhiteSpace two three s
      else (case s of
              [] \<Rightarrow> a # s
            | b # t \<Rightarrow>
                if two a b then skipWhiteSpace two three t
                else (case t of
                        [] \<Rightarrow> a # s
                      | c # u \<Rightarrow>
                          if three a b c then skipWhiteSpace two three u else a # s)))"

definition trimStart :: "string \<Rightarrow> string" where
  "trimStart s = skipWhiteSpace isWhiteSpace2 isWhiteSpace3 s"

definition trimEnd :: "string \<Rightarrow> string" where
  "trimEnd s =
     rev (skipWhiteSpace (\<lambda>a b. isWhiteSpace2 b a) (\<lambda>a b c. isWhiteSpace3 c b a) (rev s))"

definition trim :: "string \<Rightarrow> string" where
  "trim s = trimEnd (trimStart s)"

definition isUpper :: "char \<Rightarrow> bool" where
  "isUpper c = ((65::nat) \<le> of_char c \<and> (of_char c :: nat) \<le> 90)"

text \<open>\<open>toLowerCase\<close>, as far as the comparison with \<open>true\<close> and \<open>false\<close> needs
  it: the letters A to Z are mapped; no other character has a lower case that occurs in
  these two words.\<close>

definition toLowerCase :: "string \<Rightarrow> string" where
  "toLowerCase s = map (\<lambda>c. if isUpper c then char_of ((of_char c :: nat) + 32) else c) s"

definition boolToString :: "bool \<Rightarrow> string" where
  "boolToString b = (if b then ''true'' else ''false'')"

text \<open>\<open>s.split(sep)\<close> for a one-character separator.\<close>

fun split :: "char \<Rightarrow> string \<Rightarrow> string list" where
  "split sep [] = [[]]"
| "split sep (c # cs) =
     (if c = sep then [] # split sep cs
      else (case split sep cs of [] \<Rightarrow> [[c]] | p # ps \<Rightarrow> (c # p) # ps))"

definition isDigit :: "char \<Rightarrow> bool" where
  "isDigit c = ((48::nat) \<le> of_char c \<and> (of_char c :: nat) \<le> 57)"

definition digitVal :: "char \<Rightarrow> int" where
  "digitVal c = int (of_char c :: nat) - 48"

definition digitsVal :: "string \<Rightarrow> int" where
  "digitsVal ds = foldl (\<lambda>acc c. acc * 10 + digitVal c) 0 ds"

text \<open>
  \<open>parseInt(s, 10)\<close>: leading white space is skipped, one sign is read, then the longest
  run of decimal digits; with no digit the result is \<open>NaN\<close>, here \<^term>\<open>None\<close>.
  \<open>parseInt(undefined, 10)\<close> reads the string \<open>"undefined"\<close> and is \<open>NaN\<close> too.
  The value is the number the digits denote; the code has it exactly up to \<open>2^53\<close> and
  rounded (or infinite) beyond, where it is neither an index of an array nor a value of an
  \<open>INTEGER\<close> column.
\<close>

definition parseInt :: "string option \<Rightarrow> int option" where
  "parseInt so =
     (case so of
        None \<Rightarrow> None
      | Some s \<Rightarrow>
          (let t = trimStart s;
               neg = (t \<noteq> [] \<and> hd t = CHR ''-'');
               u = (if t \<noteq> [] \<and> (hd t = CHR ''-'' \<or> hd t = CHR ''+'') then tl t else t);
               ds = takeWhile isDigit u
           in if ds = [] then None
              else Some (if neg then - digitsVal ds else digitsVal ds)))"

text \<open>
  The question id has the format \<open>matchId-inning-questionIdx\<close>; the services read the
  last two fields of \<open>questionId.split('-')\<close>.
\<close>

definition parseQuestionId :: "string \<Rightarrow> int option \<times> int option" where
  "parseQuestionId questionId =
     (let parts = split CHR ''-'' questionId;
          n = int (length parts)
      in (parseInt (js_index parts (n - 2)), parseInt (js_index parts (n - 1))))"

section \<open>Question model (question.service)\<close>

datatype QuestionType = MC | TF | Closest | Media

text \<open>
  A question as it is stored in the pack's JSON.  The fields of the four variants of the
  union are kept side by side, absent ones being \<^term>\<open>None\<close>, so that the run-time
  checks of \<open>validateQuestion\<close> (\<open>!question.choices\<close>, \<open>typeof\<close>) are
  checks of the model as well.  \<open>correctIndex\<close> and \<open>correctValue\<close> are finite
  numbers when present: the functions of this service receive whatever the JSON holds and
  check neither that \<open>correctIndex\<close> is there nor that it is an integer.
\<close>

record Question =
  q_type :: QuestionType
  q_text :: string
  q_choices :: "string list option"
  q_correctIndex :: "real option"
  q_correctAnswer :: "bool option"
  q_correctValue :: "real option"
  q_mediaUrl :: "string option"
  q_clipUrl :: "string option"

datatype validation = Valid | Invalid string

definition falsy :: "string option \<Rightarrow> bool" where
  "falsy so = (case so of None \<Rightarrow> True | Some s \<Rightarrow> s = [])"

definition validateQuestion :: "Question \<Rightarrow> validation" where
  "validateQuestion question =
     (if q_text question = [] \<or> length (trim (q_text question)) = 0
      then Invalid ''Question text is required''
      else (case q_type question of
        MC \<Rightarrow>
          (case q_choices question of
             None \<Rightarrow> Invalid ''Multiple choice questions require at least 2 choices''
           | Some cs \<Rightarrow>
               if length cs < 2
               then Invalid ''Multiple choice questions require at least 2 choices''
               else if num_lt (q_correctIndex question) 0 \<or>
                       num_ge (q_correctIndex question) (real (length cs))
               then Invalid ''Invalid correct index for multiple choice question''
               else Valid)
      | Media \<Rightarrow>
          (if falsy (q_mediaUrl question) then Invalid ''Media questions require a mediaUrl''
           else (case q_choices question of
             None \<Rightarrow> Invalid ''Media questions require at least 2 choices''
           | Some cs \<Rightarrow>
               if length cs < 2 then Invalid ''Media questions require at least 2 choices''
               else if num_lt (q_correctIndex question) 0 \<or>
                       num_ge (q_correctIndex question) (real (length cs))
               then Invalid ''Invalid correct index for media question''
               else Valid))
      | TF \<Rightarrow>
          (case q_correctAnswer question of
             None \<Rightarrow> Invalid ''True/False questions require a boolean correctAnswer''
           | Some b \<Rightarrow> Valid)
      | Closest \<Rightarrow>
          (case q_correctValue question of
             None \<Rightarrow> Invalid ''Closest questions require a numeric correctValue''
           | Some v \<Rightarrow> Valid)))"

datatype answer_value = AString string | ABool bool | ANumber real

datatype error =
    MatchStateNotFound
  | InvalidStateTransition
  | StartOnlyFromLobby
  | MatchNotFound
  | InvalidQuestion string
  | RevealOnlyDuringQuestion
  | NoCurrentQuestion
  | SkipOnlyDuringQuestionOrReveal
  | NotAClosestQuestion
  | TypeError
  | UniqueConstraintViolation
  | PrismaValidationError
  | ForeignKeyViolation
  | PlayerNotAuthenticated
  | PlayerNotInMatch
  | QuestionNotFound

text \<open>\<open>getCorrectAnswer\<close>: the result \<^term>\<open>Inr None\<close> is JavaScript's
  \<open>undefined\<close>.\<close>

definition getCorrectAnswer :: "Question \<Rightarrow> error + answer_value option" where
  "getCorrectAnswer question =
     (case q_type question of
        MC \<Rightarrow>
          (case q_choices question of
             None \<Rightarrow> Inl TypeError
           | Some cs \<Rightarrow> Inr (map_option AString (js_index_num cs (q_correctIndex question))))
      | Media \<Rightarrow>
          (case q_choices question of
             None \<Rightarrow> Inl TypeError
           | Some cs \<Rightarrow> Inr (map_option AString (js_index_num cs (q_correctIndex question))))
      | TF \<Rightarrow> Inr (map_option ABool (q_correctAnswer question))
      | Closest \<Rightarrow> Inr (map_option ANumber (q_correctValue question)))"

definition isAnswerCorrect :: "Question \<Rightarrow> string \<Rightarrow> error + bool" where
  "isAnswerCorrect question answer =
     (case q_type question of
        MC \<Rightarrow>
          (case q_choices question of
             None \<Rightarrow> Inl TypeError
           | Some cs \<Rightarrow> Inr (js_index_num cs (q_correctIndex question) = Some answer))
      | Media \<Rightarrow>
          (case q_choices question of
             None \<Rightarrow> Inl TypeError
           | Some cs \<Rightarrow> Inr (js_index_num cs (q_correctIndex question) = Some answer))
      | TF \<Rightarrow>
          (case q_correctAnswer question of
             None \<Rightarrow> Inl TypeError
           | Some b \<Rightarrow> Inr (toLowerCase answer = toLowerCase (boolToString b)))
      | Closest \<Rightarrow> Inr False)"

section \<open>Records of the durable store and of the volatile state\<close>

text \<open>
  The records follow the Prisma schema and the shared TypeScript types.  A field keeps its
  name behind a prefix that tells the record (\<open>a_\<close> for \<open>MatchAnswer\<close>, \<open>p_\<close> for
  \<open>MatchPlayer\<close>, \<open>m_\<close> for \<open>Match\<close>, \<open>s_\<close> for \<open>MatchState\<close>, \<open>q_\<close> for
  \<open>Question\<close>, and so on).  Columns and fields that no modelled function reads (creation
  times, city, socket id, join code) are left out.
\<close>

datatype MatchPhase = LOBBY | QUESTION | REVEAL | STRETCH | POSTGAME

datatype MatchStatus = Status_LOBBY | IN_PROGRESS | COMPLETED | ABANDONED

record MatchSettings =
  grandSlam :: bool
  speedBonus :: bool
  timerSec :: int

record Inning =
  theme :: string
  questions :: "Question list"

text \<open>A row of table \<open>Match\<close> together with the innings of its pack
  (\<open>include: { pack: true }\<close>); times are milliseconds since the epoch.\<close>

record Match =
  m_status :: MatchStatus
  m_startedAt :: "int option"
  m_endedAt :: "int option"
  m_settings :: MatchSettings
  m_innings :: "Inning list"

record MatchPlayer =
  p_id :: string
  p_matchId :: string
  p_nickname :: string
  p_avatar :: "string option"
  p_leftAt :: "int option"

text \<open>A row of table \<open>MatchAnswer\<close>, the answer ledger.  The primary key \<open>id\<close>
  is generated by the store.\<close>

record MatchAnswer =
  a_id :: nat
  a_matchId :: string
  a_playerId :: string
  a_inningIdx :: int
  a_questionIdx :: int
  a_choice :: string
  a_isCorrect :: bool
  a_answerMs :: int
  a_bonusAwarded :: bool

record PlayerScore =
  ps_playerId :: string
  ps_nickname :: string
  ps_avatar :: "string option"
  ps_runs :: int
  ps_correct :: int
  ps_total :: int
  ps_totalTimeMs :: int

record QuestionPayload =
  qp_id :: string
  qp_type :: QuestionType
  qp_text :: string
  qp_choices :: "string list option"
  qp_mediaUrl :: "string option"
  qp_timerSec :: int
  qp_inning :: int
  qp_questionIdx :: int

record MatchState =
  s_matchId :: string
  s_phase :: MatchPhase
  s_inning :: int
  s_questionIdx :: int
  s_question :: "QuestionPayload option"
  s_endsAt :: "int option"
  s_lineScore :: "int option list"
  s_leaderboard :: "PlayerScore list"
  s_players :: "MatchPlayer list"

text \<open>An entry of the Redis set \<open>match:<id>:answers:<inning>:<question>\<close>.\<close>

record CachedAnswer =
  c_playerId :: string
  c_choice :: string
  c_isCorrect :: bool
  c_runsAwarded :: int
  c_bonusAwarded :: bool
  c_answerMs :: real

text \<open>
  Everything the services share: the tables reached through Prisma, the Redis keys, and
  the timers the process has scheduled with \<open>setTimeout\<close> (the match a timer belongs
  to, the time it is due, and the \<open>this.state\<close> of the state machine its callback
  closes over).  A Redis set is kept as a list without duplicates, in insertion order.
\<close>

record World =
  matches :: "string \<rightharpoonup> Match"
  matchPlayers :: "MatchPlayer list"
  matchAnswers :: "MatchAnswer list"
  redisState :: "string \<rightharpoonup> MatchState"
  redisAnswers :: "string \<times> int \<times> int \<Rightarrow> CachedAnswer list"
  redisPaused :: "string set"
  timers :: "(string \<times> int \<times> MatchState) list"

text \<open>
  An operation either returns a value or throws.  What it wrote to the stores before
  throwing stays written, so both outcomes carry the world they leave behind.
\<close>

datatype 'a outcome = Throw error World | Return 'a World

fun world_of :: "'a outcome \<Rightarrow> World" where
  "world_of (Throw e w) = w"
| "world_of (Return a w) = w"

fun result_of :: "'a outcome \<Rightarrow> error + 'a" where
  "result_of (Throw e w) = Inl e"
| "result_of (Return a w) = Inr a"

section \<open>Scoring rules and answer submission (answer.service)\<close>

text \<open>The result \<open>{ runs, bonusAwarded }\<close> is the pair \<open>(runs, bonusAwarded)\<close>.  The
  threshold \<open>timerSec * 1000 * 0.25\<close> is computed exactly (a multiplication by a power
  of two).\<close>

definition calculateRuns :: "bool \<Rightarrow> real \<Rightarrow> MatchSettings \<Rightarrow> bool \<Rightarrow> int \<times> bool" where
  "calculateRuns isCorrect answerMs settings isGrandSlam =
     (if \<not> isCorrect then (0, False)
      else if grandSlam settings \<and> isGrandSlam then (4, True)
      else if speedBonus settings
      then (if answerMs \<le> real_of_int (timerSec settings) * 1000 * 0.25
            then (4, True) else (1, False))
      else (1, False))"

definition isGrandSlam :: "World \<Rightarrow> string \<Rightarrow> int \<Rightarrow> int \<Rightarrow> bool" where
  "isGrandSlam w mid inningIdx questionIdx =
     (length (filter (\<lambda>a. a_matchId a = mid \<and> a_inningIdx a = inningIdx \<and>
                          a_questionIdx a = questionIdx \<and> a_isCorrect a) (matchAnswers w)) = 0)"

record SubmitAnswerRequest =
  r_matchId :: string
  r_playerId :: string
  r_questionId :: string
  r_choice :: string
  r_clientLatencyMs :: real

record SubmitAnswerResult =
  res_isCorrect :: bool
  res_correctAnswer :: "answer_value option"
  res_runsAwarded :: int
  res_bonusAwarded :: bool
  res_answerMs :: real

text \<open>
  \<open>prisma.matchAnswer.create\<close>.  The \<open>data\<close> object carries the numbers the
  service computed or received.  The migration declares \<open>inningIdx\<close>, \<open>questionIdx\<close>
  and \<open>answerMs\<close> as \<open>INTEGER\<close> columns: a value that is not an integer, or not one
  of 32 bits with sign, is refused before the table is touched.  The migration also
  declares the unique index \<open>MatchAnswer_matchId_playerId_inningIdx_questionIdx_key\<close>
  and foreign keys to \<open>Match\<close> and \<open>MatchPlayer\<close>; an insert that violates one of
  them is rejected and the table is left as it was.  The new row gets a fresh \<open>id\<close>.
\<close>

record MatchAnswerData =
  d_matchId :: string
  d_playerId :: string
  d_inningIdx :: int
  d_questionIdx :: int
  d_choice :: string
  d_isCorrect :: bool
  d_answerMs :: real
  d_bonusAwarded :: bool

definition int32 :: "int \<Rightarrow> bool" where
  "int32 i = (- 2147483648 \<le> i \<and> i \<le> 2147483647)"

definition fitsInteger :: "real \<Rightarrow> bool" where
  "fitsInteger x = (x = of_int \<lfloor>x\<rfloor> \<and> int32 \<lfloor>x\<rfloor>)"

definition answer_key :: "MatchAnswer \<Rightarrow> string \<times> string \<times> int \<times> int" where
  "answer_key a = (a_matchId a, a_playerId a, a_inningIdx a, a_questionIdx a)"

definition data_key :: "MatchAnswerData \<Rightarrow> string \<times> string \<times> int \<times> int" where
  "data_key d = (d_matchId d, d_playerId d, d_inningIdx d, d_questionIdx d)"

definition fresh_id :: "MatchAnswer list \<Rightarrow> nat" where
  "fresh_id rows = Suc (fold max (map a_id rows) 0)"

definition create :: "MatchAnswerData \<Rightarrow> World \<Rightarrow> MatchAnswer outcome" where
  "create d w =
     (if \<not> (int32 (d_inningIdx d) \<and> int32 (d_questionIdx d) \<and> fitsInteger (d_answerMs d))
      then Throw PrismaValidationError w
      else if data_key d \<in> set (map answer_key (matchAnswers w))
      then Throw UniqueConstraintViolation w
      else if matches w (d_matchId d) = None \<or>
              d_playerId d \<notin> set (map p_id (matchPlayers w))
      then Throw ForeignKeyViolation w
      else (let stored =
                  \<lparr>a_id = fresh_id (matchAnswers w), a_matchId = d_matchId d,
                   a_playerId = d_playerId d, a_inningIdx = d_inningIdx d,
                   a_questionIdx = d_questionIdx d, a_choice = d_choice d,
                   a_isCorrect = d_isCorrect d, a_answerMs = \<lfloor>d_answerMs d\<rfloor>,
                   a_bonusAwarded = d_bonusAwarded d\<rparr>
            in Return stored (w\<lparr>matchAnswers := matchAnswers w @ [stored]\<rparr>)))"

text \<open>\<open>redisClient.sadd\<close> on the set of one question.\<close>

definition sadd :: "string \<times> int \<times> int \<Rightarrow> CachedAnswer \<Rightarrow> World \<Rightarrow> World" where
  "sadd cacheKey member w =
     (if member \<in> set (redisAnswers w cacheKey) then w
      else w\<lparr>redisAnswers := (redisAnswers w)(cacheKey := redisAnswers w cacheKey @ [member])\<rparr>)"

text \<open>
  \<open>submitAnswer\<close>.  The indices are read from the question id; a \<open>NaN\<close> index is
  refused by the first query that receives it.  The time passed to \<open>calculateRuns\<close>
  and stored as \<open>answerMs\<close> is the request's \<open>clientLatencyMs\<close>, a number by the
  type of the payload.
\<close>

definition newAnswer ::
  "SubmitAnswerRequest \<Rightarrow> int \<Rightarrow> int \<Rightarrow> bool \<Rightarrow> bool \<Rightarrow> MatchAnswerData" where
  "newAnswer request inningIdx questionIdx correct bonusAwarded =
     \<lparr>d_matchId = r_matchId request, d_playerId = r_playerId request,
      d_inningIdx = inningIdx, d_questionIdx = questionIdx, d_choice = r_choice request,
      d_isCorrect = correct, d_answerMs = r_clientLatencyMs request,
      d_bonusAwarded = bonusAwarded\<rparr>"

definition answerData :: "SubmitAnswerRequest \<Rightarrow> bool \<Rightarrow> int \<Rightarrow> bool \<Rightarrow> CachedAnswer" where
  "answerData request correct runsAwarded bonusAwarded =
     \<lparr>c_playerId = r_playerId request, c_choice = r_choice request, c_isCorrect = correct,
      c_runsAwarded = runsAwarded, c_bonusAwarded = bonusAwarded,
      c_answerMs = r_clientLatencyMs request\<rparr>"

definition submitAnswer ::
  "SubmitAnswerRequest \<Rightarrow> Question \<Rightarrow> MatchSettings \<Rightarrow> World \<Rightarrow> SubmitAnswerResult outcome" where
  "submitAnswer request question settings w =
     (case isAnswerCorrect question (r_choice request) of
        Inl e \<Rightarrow> Throw e w
      | Inr correct \<Rightarrow>
          (case parseQuestionId (r_questionId request) of
             (Some inningIdx, Some questionIdx) \<Rightarrow>
               (let grandSlam = isGrandSlam w (r_matchId request) inningIdx questionIdx;
                    (runsAwarded, bonusAwarded) =
                       calculateRuns correct (r_clientLatencyMs request) settings grandSlam
                in case create (newAnswer request inningIdx questionIdx correct bonusAwarded) w of
                     Throw e w' \<Rightarrow> Throw e w'
                   | Return row w' \<Rightarrow>
                       (let w'' = sadd (r_matchId request, inningIdx, questionIdx)
                                    (answerData request correct runsAwarded bonusAwarded) w'
                        in case getCorrectAnswer question of
                             Inl e \<Rightarrow> Throw e w''
                           | Inr correctAnswer \<Rightarrow>
                               Return \<lparr>res_isCorrect = correct,
                                       res_correctAnswer = correctAnswer,
                                       res_runsAwarded = runsAwarded,
                                       res_bonusAwarded = bonusAwarded,
                                       res_answerMs = r_clientLatencyMs request\<rparr> w''))
           | (_, _) \<Rightarrow> Throw PrismaValidationError w))"

subsection \<open>Concurrent calls\<close>

text \<open>
  \<open>submitAnswer\<close> is an \<open>async\<close> function: between two of its \<open>await\<close>s other
  calls run.  A call in flight is in one of the following states: it has arrived; it has
  read the ledger for the grand slam and computed its runs; its row is stored; it has
  resolved with a result; it has been rejected with an error.  \<open>step\<close> runs one call
  up to its next \<open>await\<close> of a store.
\<close>

datatype call =
    Arrived SubmitAnswerRequest Question MatchSettings
  | Scored SubmitAnswerRequest Question int int bool int bool
  | Stored SubmitAnswerRequest Question int int bool int bool
  | Resolved SubmitAnswerResult
  | Rejected error

fun step :: "World \<Rightarrow> call \<Rightarrow> World \<times> call" where
  "step w (Arrived request question settings) =
     (case isAnswerCorrect question (r_choice request) of
        Inl e \<Rightarrow> (w, Rejected e)
      | Inr correct \<Rightarrow>
          (case parseQuestionId (r_questionId request) of
             (Some inningIdx, Some questionIdx) \<Rightarrow>
               (let grandSlam = isGrandSlam w (r_matchId request) inningIdx questionIdx;
                    (runsAwarded, bonusAwarded) =
                       calculateRuns correct (r_clientLatencyMs request) settings grandSlam
                in (w, Scored request question inningIdx questionIdx correct
                         runsAwarded bonusAwarded))
           | (_, _) \<Rightarrow> (w, Rejected PrismaValidationError)))"
| "step w (Scored request question inningIdx questionIdx correct runsAwarded bonusAwarded) =
     (case create (newAnswer request inningIdx questionIdx correct bonusAwarded) w of
        Throw e w' \<Rightarrow> (w', Rejected e)
      | Return row w' \<Rightarrow>
          (w', Stored request question inningIdx questionIdx correct runsAwarded bonusAwarded))"
| "step w (Stored request question inningIdx questionIdx correct runsAwarded bonusAwarded) =
     (let w'' = sadd (r_matchId request, inningIdx, questionIdx)
                  (answerData request correct runsAwarded bonusAwarded) w
      in case getCorrectAnswer question of
           Inl e \<Rightarrow> (w'', Rejected e)
         | Inr correctAnswer \<Rightarrow>
             (w'', Resolved \<lparr>res_isCorrect = correct, res_correctAnswer = correctAnswer,
                             res_runsAwarded = runsAwarded, res_bonusAwarded = bonusAwarded,
                             res_answerMs = r_clientLatencyMs request\<rparr>))"
| "step w (Resolved r) = (w, Resolved r)"
| "step w (Rejected e) = (w, Rejected e)"

text \<open>Any call in flight may take the next step.\<close>

inductive interleave :: "World \<times> call list \<Rightarrow> World \<times> call list \<Rightarrow> bool" where
  "i < length cs \<Longrightarrow> step w (cs ! i) = (w', c') \<Longrightarrow> interleave (w, cs) (w', cs[i := c'])"


fun resolved :: "call \<Rightarrow> bool" where
  "resolved (Resolved r) = True"
| "resolved c = False"

fun committed :: "call \<Rightarrow> bool" where
  "committed (Stored request question i k correct runs bonus) = True"
| "committed (Resolved r) = True"
| "committed c = False"

fun outcome_of :: "World \<times> call \<Rightarrow> SubmitAnswerResult outcome" where
  "outcome_of (w, Resolved r) = Return r w"
| "outcome_of (w, Rejected e) = Throw e w"
| "outcome_of (w, c) = Throw TypeError w"

section \<open>Leaderboard (the score part of the \<open>answer:submit\<close> handler)\<close>

text \<open>The score of one player, from the player's rows of the ledger.\<close>

definition playerScore :: "World \<Rightarrow> string \<Rightarrow> MatchPlayer \<Rightarrow> PlayerScore" where
  "playerScore w mid p =
     (let answers = filter (\<lambda>a. a_matchId a = mid \<and> a_playerId a = p_id p) (matchAnswers w);
          correct = int (length (filter a_isCorrect answers));
          total = int (length answers);
          runs = foldl (\<lambda>sum a. if \<not> a_isCorrect a then sum
                                  else sum + (if a_bonusAwarded a then 4 else 1)) 0 answers;
          totalTimeMs = foldl (\<lambda>sum a. sum + a_answerMs a) 0 answers
      in \<lparr>ps_playerId = p_id p, ps_nickname = p_nickname p,
          ps_avatar = (if falsy (p_avatar p) then None else p_avatar p),
          ps_runs = runs, ps_correct = correct, ps_total = total,
          ps_totalTimeMs = totalTimeMs\<rparr>)"

definition playerScores :: "World \<Rightarrow> string \<Rightarrow> PlayerScore list" where
  "playerScores w mid =
     map (playerScore w mid)
       (filter (\<lambda>p. p_matchId p = mid \<and> p_leftAt p = None) (matchPlayers w))"

text \<open>
  \<open>Array.prototype.sort\<close> with a comparator is a stable sort: an element goes before
  another when the comparator is negative, and elements that compare equal keep their
  order.  Insertion from the right computes that arrangement.
\<close>

fun insert_by :: "('a \<Rightarrow> 'a \<Rightarrow> int) \<Rightarrow> 'a \<Rightarrow> 'a list \<Rightarrow> 'a list" where
  "insert_by cmp x [] = [x]"
| "insert_by cmp x (y # ys) = (if cmp x y \<le> 0 then x # y # ys else y # insert_by cmp x ys)"

definition js_sort :: "('a \<Rightarrow> 'a \<Rightarrow> int) \<Rightarrow> 'a list \<Rightarrow> 'a list" where
  "js_sort cmp xs = foldr (insert_by cmp) xs []"

text \<open>The comparator of \<open>updateLeaderboard\<close>.\<close>

definition compareScores :: "PlayerScore \<Rightarrow> PlayerScore \<Rightarrow> int" where
  "compareScores a b =
     (if ps_runs b \<noteq> ps_runs a then ps_runs b - ps_runs a
      else ps_totalTimeMs a - ps_totalTimeMs b)"

section \<open>The match state machine (state-machine.service)\<close>

text \<open>
  Every handler creates its own \<open>MatchStateMachine\<close> and every method starts with
  \<open>loadState\<close>, which replaces \<open>this.state\<close> by the state stored in Redis.  A method
  is therefore a function of the match id and the world; \<open>this.state\<close> is the local
  \<open>s\<close>.  \<open>Date.now()\<close> is the argument \<open>now\<close>.  Broadcasts to the room do not
  touch any store; what \<open>question:reveal\<close> broadcasts is the value \<open>revealAnswer\<close>
  returns.
\<close>

definition VALID_TRANSITIONS :: "MatchPhase \<Rightarrow> MatchPhase list" where
  "VALID_TRANSITIONS p =
     (case p of
        LOBBY \<Rightarrow> [QUESTION]
      | QUESTION \<Rightarrow> [REVEAL]
      | REVEAL \<Rightarrow> [QUESTION, STRETCH, POSTGAME]
      | STRETCH \<Rightarrow> [QUESTION]
      | POSTGAME \<Rightarrow> [])"

definition loadState :: "string \<Rightarrow> World \<Rightarrow> MatchState outcome" where
  "loadState mid w =
     (case redisState w mid of
        None \<Rightarrow> Throw MatchStateNotFound w
      | Some s \<Rightarrow> Return s w)"

definition saveState :: "string \<Rightarrow> MatchState \<Rightarrow> World \<Rightarrow> World" where
  "saveState mid s w = w\<lparr>redisState := (redisState w)(mid \<mapsto> s)\<rparr>"

definition transition :: "string \<Rightarrow> MatchPhase \<Rightarrow> World \<Rightarrow> unit outcome" where
  "transition mid newPhase w =
     (case loadState mid w of
        Throw e w' \<Rightarrow> Throw e w'
      | Return s w' \<Rightarrow>
          if newPhase \<notin> set (VALID_TRANSITIONS (s_phase s))
          then Throw InvalidStateTransition w'
          else Return () (saveState mid (s\<lparr>s_phase := newPhase\<rparr>) w'))"

text \<open>Decimal digits of a number in a template string.\<close>

fun showNat :: "nat \<Rightarrow> string" where
  "showNat n =
     (if n < 10 then [char_of (48 + n)] else showNat (n div 10) @ [char_of (48 + n mod 10)])"

definition showInt :: "int \<Rightarrow> string" where
  "showInt i = (if i < 0 then CHR ''-'' # showNat (nat (- i)) else showNat (nat i))"

definition formatQuestion ::
  "string \<Rightarrow> Question \<Rightarrow> int \<Rightarrow> int \<Rightarrow> int \<Rightarrow> QuestionPayload" where
  "formatQuestion mid qn inningIdx questionIdx timer =
     (let basePayload =
            \<lparr>qp_id = mid @ ''-'' @ showInt inningIdx @ ''-'' @ showInt questionIdx,
             qp_type = q_type qn, qp_text = q_text qn, qp_choices = None, qp_mediaUrl = None,
             qp_timerSec = timer, qp_inning = inningIdx, qp_questionIdx = questionIdx\<rparr>;
          typed =
            (case q_type qn of
               MC \<Rightarrow> basePayload\<lparr>qp_choices := q_choices qn\<rparr>
             | Media \<Rightarrow> basePayload\<lparr>qp_choices := q_choices qn, qp_mediaUrl := q_mediaUrl qn\<rparr>
             | TF \<Rightarrow> basePayload\<lparr>qp_choices := Some [''True'', ''False'']\<rparr>
             | Closest \<Rightarrow> basePayload)
      in if \<not> falsy (q_mediaUrl qn) \<and> q_type qn \<noteq> Media
         then typed\<lparr>qp_mediaUrl := q_mediaUrl qn\<rparr> else typed)"

text \<open>
  \<open>startMatch\<close>.  The order of the source is kept: the phase check, the read of the
  match, the update of the match row, the read of the first question, its validation,
  and only then the write of the state.
\<close>

definition startMatch :: "string \<Rightarrow> int \<Rightarrow> World \<Rightarrow> unit outcome" where
  "startMatch mid now w =
     (case loadState mid w of
        Throw e w' \<Rightarrow> Throw e w'
      | Return s0 w' \<Rightarrow>
          if s_phase s0 \<noteq> LOBBY then Throw StartOnlyFromLobby w
          else (case matches w mid of
             None \<Rightarrow> Throw MatchNotFound w
           | Some match \<Rightarrow>
               (let w1 = w\<lparr>matches := (matches w)(mid \<mapsto>
                              match\<lparr>m_status := IN_PROGRESS, m_startedAt := Some now\<rparr>)\<rparr>;
                    s = s0\<lparr>s_inning := 0, s_questionIdx := 0, s_phase := QUESTION\<rparr>;
                    innings = m_innings match
                in case js_index innings 0 of
                     None \<Rightarrow> Throw TypeError w1
                   | Some first \<Rightarrow>
                       (case js_index (questions first) 0 of
                          None \<Rightarrow> Throw TypeError w1
                        | Some qn \<Rightarrow>
                            (case validateQuestion qn of
                               Invalid msg \<Rightarrow> Throw (InvalidQuestion msg) w1
                             | Valid \<Rightarrow>
                                 Return ()
                                   (saveState mid
                                      (s\<lparr>s_question := Some (formatQuestion mid qn 0 0
                                                          (timerSec (m_settings match))),
                                         s_endsAt := Some (now + timerSec (m_settings match) * 1000)\<rparr>)
                                      w1))))))"

definition endMatch :: "string \<Rightarrow> int \<Rightarrow> World \<Rightarrow> unit outcome" where
  "endMatch mid now w =
     (case loadState mid w of
        Throw e w' \<Rightarrow> Throw e w'
      | Return s w' \<Rightarrow>
          (let w1 = saveState mid
                      (s\<lparr>s_phase := POSTGAME, s_question := None, s_endsAt := None\<rparr>) w
           in case matches w1 mid of
                None \<Rightarrow> Throw MatchNotFound w1
              | Some match \<Rightarrow>
                  Return () (w1\<lparr>matches := (matches w1)(mid \<mapsto>
                               match\<lparr>m_status := COMPLETED, m_endedAt := Some now\<rparr>)\<rparr>)))"

text \<open>
  \<open>triggerStretch\<close> has no check of the phase.  It stores the stretch phase and
  schedules the callback; the timer keeps the state the instance holds at that moment.
\<close>

definition triggerStretch :: "string \<Rightarrow> int \<Rightarrow> World \<Rightarrow> unit outcome" where
  "triggerStretch mid now w =
     (case loadState mid w of
        Throw e w' \<Rightarrow> Throw e w'
      | Return s0 w' \<Rightarrow>
          (let s = s0\<lparr>s_phase := STRETCH, s_endsAt := Some (now + 30000)\<rparr>;
               w1 = saveState mid s w
           in Return () (w1\<lparr>timers := timers w1 @ [(mid, now + 30000, s)]\<rparr>)))"

text \<open>
  The last part of \<open>nextQuestion\<close>: the question at the new position is read and
  validated, and only a valid question is stored together with the question phase and a
  fresh deadline.  \<open>validateQuestion\<close> applied to \<open>undefined\<close> throws a
  \<open>TypeError\<close>.
\<close>

definition showQuestion :: "string \<Rightarrow> int \<Rightarrow> Match \<Rightarrow> MatchState \<Rightarrow> World \<Rightarrow> unit outcome" where
  "showQuestion mid now match s w =
     (case js_index (m_innings match) (s_inning s) of
        None \<Rightarrow> Throw TypeError w
      | Some inn \<Rightarrow>
          (case js_index (questions inn) (s_questionIdx s) of
             None \<Rightarrow> Throw TypeError w
           | Some qn \<Rightarrow>
               (case validateQuestion qn of
                  Invalid msg \<Rightarrow> Throw (InvalidQuestion msg) w
                | Valid \<Rightarrow>
                    Return ()
                      (saveState mid
                         (s\<lparr>s_phase := QUESTION,
                            s_question := Some (formatQuestion mid qn (s_inning s) (s_questionIdx s)
                                                  (timerSec (m_settings match))),
                            s_endsAt := Some (now + timerSec (m_settings match) * 1000)\<rparr>)
                         w))))"

definition nextQuestion :: "string \<Rightarrow> int \<Rightarrow> World \<Rightarrow> unit outcome" where
  "nextQuestion mid now w =
     (case loadState mid w of
        Throw e w' \<Rightarrow> Throw e w'
      | Return s w' \<Rightarrow>
          (case matches w mid of
             None \<Rightarrow> Throw MatchNotFound w
           | Some match \<Rightarrow>
               (let innings = m_innings match;
                    currentInning = s_inning s;
                    currentQuestionIdx = s_questionIdx s
                in case js_index innings currentInning of
                     None \<Rightarrow> Throw TypeError w
                   | Some current \<Rightarrow>
                       if currentQuestionIdx + 1 \<ge> int (length (questions current))
                       then (if currentInning + 1 \<ge> int (length innings)
                             then endMatch mid now w
                             else if currentInning = 6
                             then triggerStretch mid now w
                             else showQuestion mid now match
                                    (s\<lparr>s_inning := currentInning + 1, s_questionIdx := 0\<rparr>) w)
                       else showQuestion mid now match
                              (s\<lparr>s_questionIdx := currentQuestionIdx + 1\<rparr>) w)))"

text \<open>
  The callback that \<open>triggerStretch\<close> schedules.  It assigns \<open>inning = 7\<close> and
  \<open>questionIdx = 0\<close> to the \<open>this.state\<close> it closes over and calls
  \<open>nextQuestion\<close>, whose first statement loads the stored state into \<open>this.state\<close>
  again.  There is no check of the phase or of the match's status.
\<close>

definition stretchTimeout :: "string \<Rightarrow> MatchState \<Rightarrow> int \<Rightarrow> World \<Rightarrow> unit outcome" where
  "stretchTimeout mid this_state now w =
     (let assigned = this_state\<lparr>s_inning := 7, s_questionIdx := 0\<rparr>
      in nextQuestion mid now w)"


section \<open>Reveal and tie resolution (reveal.service)\<close>

text \<open>
  A JavaScript number is a double: \<open>NaN\<close>, one of the two infinities, or a finite
  value.  \<open>NaN\<close> compares false with everything, itself included.
\<close>

datatype jsnumber = JsNaN | JsInf | JsNegInf | JsNum real

definition isNaN :: "jsnumber \<Rightarrow> bool" where
  "isNaN x = (x = JsNaN)"

definition js_lt :: "jsnumber \<Rightarrow> jsnumber \<Rightarrow> bool" where
  "js_lt x y =
     (case x of
        JsNaN \<Rightarrow> False
      | JsInf \<Rightarrow> False
      | JsNegInf \<Rightarrow> (case y of JsInf \<Rightarrow> True | JsNum b \<Rightarrow> True | _ \<Rightarrow> False)
      | JsNum a \<Rightarrow> (case y of JsInf \<Rightarrow> True | JsNum b \<Rightarrow> a < b | _ \<Rightarrow> False))"

definition js_eq :: "jsnumber \<Rightarrow> jsnumber \<Rightarrow> bool" where
  "js_eq x y = (x \<noteq> JsNaN \<and> x = y)"

definition js_abs :: "jsnumber \<Rightarrow> jsnumber" where
  "js_abs x =
     (case x of JsNaN \<Rightarrow> JsNaN | JsInf \<Rightarrow> JsInf | JsNegInf \<Rightarrow> JsInf | JsNum a \<Rightarrow> JsNum \<bar>a\<bar>)"

text \<open>
  \<open>correctValue - numericAnswer\<close>.  A missing \<open>correctValue\<close> is \<open>undefined\<close> and
  makes the difference \<open>NaN\<close>; an infinite \<open>numericAnswer\<close> gives the opposite
  infinity.  The difference of two finite doubles is the parameter \<open>subtract\<close>: the
  exact difference rounded to a double, or an infinity on overflow.
\<close>

definition js_minus :: "(real \<Rightarrow> real \<Rightarrow> jsnumber) \<Rightarrow> real option \<Rightarrow> jsnumber \<Rightarrow> jsnumber" where
  "js_minus subtract correctValue numericAnswer =
     (case correctValue of
        None \<Rightarrow> JsNaN
      | Some cv \<Rightarrow>
          (case numericAnswer of
             JsNaN \<Rightarrow> JsNaN
           | JsInf \<Rightarrow> JsNegInf
           | JsNegInf \<Rightarrow> JsInf
           | JsNum na \<Rightarrow> subtract cv na))"

text \<open>
  One turn of the loop of \<open>handleClosestQuestion\<close>.  \<open>parseFloat\<close> is a parameter
  too: a choice parses to a finite number, to an infinity (the choice
  \<open>Infinity\<close>) or to \<open>NaN\<close>.  The running minimum starts at \<open>Infinity\<close>.
\<close>

definition closestLoop ::
  "(string \<Rightarrow> jsnumber) \<Rightarrow> (real \<Rightarrow> real \<Rightarrow> jsnumber) \<Rightarrow> real option
     \<Rightarrow> jsnumber \<times> nat list \<Rightarrow> MatchAnswer \<Rightarrow> jsnumber \<times> nat list" where
  "closestLoop parseFloat subtract correctValue acc answer =
     (case acc of (minDistance, closestAnswerIds) \<Rightarrow>
        (let numericAnswer = parseFloat (a_choice answer)
         in if isNaN numericAnswer then acc
            else (let distance = js_abs (js_minus subtract correctValue numericAnswer)
                  in if js_lt distance minDistance then (distance, [a_id answer])
                     else if js_eq distance minDistance
                     then (minDistance, closestAnswerIds @ [a_id answer])
                     else acc)))"

definition updateMany :: "nat list \<Rightarrow> World \<Rightarrow> World" where
  "updateMany ids w =
     w\<lparr>matchAnswers :=
          map (\<lambda>a. if a_id a \<in> set ids then a\<lparr>a_isCorrect := True, a_bonusAwarded := False\<rparr>
                    else a) (matchAnswers w)\<rparr>"

definition handleClosestQuestion ::
  "(string \<Rightarrow> jsnumber) \<Rightarrow> (real \<Rightarrow> real \<Rightarrow> jsnumber) \<Rightarrow> string \<Rightarrow> int \<Rightarrow> int \<Rightarrow> Question
     \<Rightarrow> World \<Rightarrow> unit outcome" where
  "handleClosestQuestion parseFloat subtract mid inningIdx questionIdx qn w =
     (if q_type qn \<noteq> Closest then Throw NotAClosestQuestion w
      else (let correctValue = q_correctValue qn;
                answers = filter (\<lambda>a. a_matchId a = mid \<and> a_inningIdx a = inningIdx \<and>
                                       a_questionIdx a = questionIdx) (matchAnswers w)
            in if length answers = 0 then Return () w
               else (case foldl (closestLoop parseFloat subtract correctValue) (JsInf, []) answers of
                       (minDistance, closestAnswerIds) \<Rightarrow>
                         if length closestAnswerIds > 0
                         then Return () (updateMany closestAnswerIds w)
                         else Return () w)))"

record QuestionAnswer =
  qa_playerId :: string
  qa_nickname :: string
  qa_choice :: string
  qa_isCorrect :: bool
  qa_runsAwarded :: int
  qa_bonusAwarded :: bool
  qa_answerMs :: real

definition findPlayer :: "World \<Rightarrow> string \<Rightarrow> MatchPlayer option" where
  "findPlayer w pid = find (\<lambda>p. p_id p = pid) (matchPlayers w)"

text \<open>
  \<open>getQuestionAnswers\<close> (answer.service) reads the Redis set of the question first and
  falls back to the ledger only when the set is empty.  In the ledger branch the player of
  a row exists by the foreign key.
\<close>

definition getQuestionAnswers :: "string \<Rightarrow> int \<Rightarrow> int \<Rightarrow> World \<Rightarrow> QuestionAnswer list" where
  "getQuestionAnswers mid inningIdx questionIdx w =
     (let cachedAnswers = redisAnswers w (mid, inningIdx, questionIdx)
      in if length cachedAnswers > 0
         then map (\<lambda>answer.
                \<lparr>qa_playerId = c_playerId answer,
                 qa_nickname = (case findPlayer w (c_playerId answer) of
                                  None \<Rightarrow> ''Unknown''
                                | Some player \<Rightarrow> if p_nickname player = [] then ''Unknown''
                                                else p_nickname player),
                 qa_choice = c_choice answer, qa_isCorrect = c_isCorrect answer,
                 qa_runsAwarded = c_runsAwarded answer, qa_bonusAwarded = c_bonusAwarded answer,
                 qa_answerMs = c_answerMs answer\<rparr>) cachedAnswers
         else map (\<lambda>answer.
                \<lparr>qa_playerId = a_playerId answer,
                 qa_nickname = (case findPlayer w (a_playerId answer) of
                                  None \<Rightarrow> [] | Some player \<Rightarrow> p_nickname player),
                 qa_choice = a_choice answer, qa_isCorrect = a_isCorrect answer,
                 qa_runsAwarded = (if a_bonusAwarded answer then 4
                                   else if a_isCorrect answer then 1 else 0),
                 qa_bonusAwarded = a_bonusAwarded answer,
                 qa_answerMs = real_of_int (a_answerMs answer)\<rparr>)
              (filter (\<lambda>a. a_matchId a = mid \<and> a_inningIdx a = inningIdx \<and>
                           a_questionIdx a = questionIdx) (matchAnswers w)))"

definition calculateInningRuns :: "string \<Rightarrow> int \<Rightarrow> World \<Rightarrow> int" where
  "calculateInningRuns mid inningIdx w =
     foldl (\<lambda>total answer. total + (if a_bonusAwarded answer then 4 else 1)) 0
       (filter (\<lambda>a. a_matchId a = mid \<and> a_inningIdx a = inningIdx \<and> a_isCorrect a)
          (matchAnswers w))"

record PlayerResult =
  pr_playerId :: string
  pr_nickname :: string
  pr_isCorrect :: bool
  pr_runsAwarded :: int

text \<open>The payload of \<open>question:reveal\<close>.  \<open>rp_correctAnswer\<close> is the value whose
  \<open>toString()\<close> the source sends.\<close>

record QuestionRevealPayload =
  rp_questionId :: string
  rp_correctAnswer :: answer_value
  rp_correctIndex :: "real option"
  rp_clipUrl :: "string option"
  rp_playerResults :: "PlayerResult list"

definition generateRevealPayload ::
  "(string \<Rightarrow> jsnumber) \<Rightarrow> (real \<Rightarrow> real \<Rightarrow> jsnumber) \<Rightarrow> string \<Rightarrow> string \<Rightarrow> Question \<Rightarrow> World
     \<Rightarrow> QuestionRevealPayload outcome" where
  "generateRevealPayload parseFloat subtract mid questionId qn w =
     (case parseQuestionId questionId of
        (Some inningIdx, Some questionIdx) \<Rightarrow>
          (case (if q_type qn = Closest
                 then handleClosestQuestion parseFloat subtract mid inningIdx questionIdx qn w
                 else Return () w) of
             Throw e w' \<Rightarrow> Throw e w'
           | Return u w1 \<Rightarrow>
               (let answers = getQuestionAnswers mid inningIdx questionIdx w1
                in case getCorrectAnswer qn of
                     Inl e \<Rightarrow> Throw e w1
                   | Inr None \<Rightarrow> Throw TypeError w1
                   | Inr (Some correctAnswer) \<Rightarrow>
                       Return
                         \<lparr>rp_questionId = questionId, rp_correctAnswer = correctAnswer,
                          rp_correctIndex = (if q_type qn = MC \<or> q_type qn = Media
                                             then q_correctIndex qn else None),
                          rp_clipUrl = q_clipUrl qn,
                          rp_playerResults =
                            map (\<lambda>answer.
                                  \<lparr>pr_playerId = qa_playerId answer,
                                   pr_nickname = qa_nickname answer,
                                   pr_isCorrect = qa_isCorrect answer,
                                   pr_runsAwarded = qa_runsAwarded answer\<rparr>) answers\<rparr>
                         w1))
      | (_, _) \<Rightarrow> Throw PrismaValidationError w)"

text \<open>\<open>revealAnswer\<close> of the state machine.\<close>

definition revealAnswer ::
  "(string \<Rightarrow> jsnumber) \<Rightarrow> (real \<Rightarrow> real \<Rightarrow> jsnumber) \<Rightarrow> string \<Rightarrow> World
     \<Rightarrow> QuestionRevealPayload outcome" where
  "revealAnswer parseFloat subtract mid w =
     (case loadState mid w of
        Throw e w' \<Rightarrow> Throw e w'
      | Return s w' \<Rightarrow>
          if s_phase s \<noteq> QUESTION then Throw RevealOnlyDuringQuestion w
          else (case s_question s of
             None \<Rightarrow> Throw NoCurrentQuestion w
           | Some currentQuestion \<Rightarrow>
               (case matches w mid of
                  None \<Rightarrow> Throw MatchNotFound w
                | Some match \<Rightarrow>
                    (case js_index (m_innings match) (s_inning s) of
                       None \<Rightarrow> Throw TypeError w
                     | Some inn \<Rightarrow>
                         (case js_index (questions inn) (s_questionIdx s) of
                            None \<Rightarrow> Throw TypeError w
                          | Some qn \<Rightarrow>
                              (case generateRevealPayload parseFloat subtract mid
                                      (qp_id currentQuestion) qn w of
                                 Throw e w1 \<Rightarrow> Throw e w1
                               | Return revealPayload w1 \<Rightarrow>
                                   (let inningRuns = calculateInningRuns mid (s_inning s) w1
                                    in Return revealPayload
                                         (saveState mid
                                            (s\<lparr>s_lineScore := js_assign (s_lineScore s)
                                                                 (nat (s_inning s)) inningRuns,
                                               s_phase := REVEAL, s_endsAt := None\<rparr>)
                                            w1))))))))"

section \<open>Host controls and the handlers (state-machine.service, the socket handlers)\<close>

definition skipQuestion :: "string \<Rightarrow> int \<Rightarrow> World \<Rightarrow> unit outcome" where
  "skipQuestion mid now w =
     (case loadState mid w of
        Throw e w' \<Rightarrow> Throw e w'
      | Return s w' \<Rightarrow>
          if s_phase s = QUESTION \<or> s_phase s = REVEAL then nextQuestion mid now w
          else Throw SkipOnlyDuringQuestionOrReveal w)"

definition pauseMatch :: "string \<Rightarrow> World \<Rightarrow> unit outcome" where
  "pauseMatch mid w =
     (case loadState mid w of
        Throw e w' \<Rightarrow> Throw e w'
      | Return s w' \<Rightarrow> Return () (w\<lparr>redisPaused := insert mid (redisPaused w)\<rparr>))"

text \<open>\<open>resumeMatch\<close>: in the question phase with a deadline set (a deadline \<open>0\<close> is
  falsy) the deadline is computed afresh from the timer.\<close>

definition resumeMatch :: "string \<Rightarrow> int \<Rightarrow> World \<Rightarrow> unit outcome" where
  "resumeMatch mid now w =
     (case loadState mid w of
        Throw e w' \<Rightarrow> Throw e w'
      | Return s w' \<Rightarrow>
          (let w1 = w\<lparr>redisPaused := redisPaused w - {mid}\<rparr>
           in if s_phase s = QUESTION \<and> s_endsAt s \<noteq> None \<and> s_endsAt s \<noteq> Some 0
              then (case matches w1 mid of
                      None \<Rightarrow> Return () w1
                    | Some match \<Rightarrow>
                        Return () (saveState mid
                          (s\<lparr>s_endsAt := Some (now + timerSec (m_settings match) * 1000)\<rparr>) w1))
              else Return () w1))"

definition updateLeaderboard :: "string \<Rightarrow> PlayerScore list \<Rightarrow> World \<Rightarrow> unit outcome" where
  "updateLeaderboard mid scores w =
     (case loadState mid w of
        Throw e w' \<Rightarrow> Throw e w'
      | Return s w' \<Rightarrow>
          Return () (saveState mid (s\<lparr>s_leaderboard := js_sort compareScores scores\<rparr>) w))"

definition updateLineScore :: "string \<Rightarrow> nat \<Rightarrow> int \<Rightarrow> World \<Rightarrow> unit outcome" where
  "updateLineScore mid inningIdx runs w =
     (case loadState mid w of
        Throw e w' \<Rightarrow> Throw e w'
      | Return s w' \<Rightarrow>
          Return () (saveState mid
            (s\<lparr>s_lineScore := js_assign (s_lineScore s) inningIdx runs\<rparr>) w))"

text \<open>
  The \<open>host:action\<close> handler dispatches on the action.  An exception of the state
  machine is caught and sent to the host as \<open>host:action:error\<close>; the outcome
  \<^term>\<open>Throw\<close> stands for that reply.
\<close>

datatype HostAction =
  Action_start | Action_pause | Action_resume | Action_skip | Action_reveal | Action_stretch

definition hostAction ::
  "(string \<Rightarrow> jsnumber) \<Rightarrow> (real \<Rightarrow> real \<Rightarrow> jsnumber) \<Rightarrow> string \<Rightarrow> HostAction \<Rightarrow> int \<Rightarrow> World
     \<Rightarrow> unit outcome" where
  "hostAction parseFloat subtract mid action now w =
     (case action of
        Action_pause \<Rightarrow> pauseMatch mid w
      | Action_resume \<Rightarrow> resumeMatch mid now w
      | Action_skip \<Rightarrow> skipQuestion mid now w
      | Action_reveal \<Rightarrow>
          (case revealAnswer parseFloat subtract mid w of
             Throw e w' \<Rightarrow> Throw e w'
           | Return payload w' \<Rightarrow> Return () w')
      | Action_stretch \<Rightarrow> triggerStretch mid now w
      | Action_start \<Rightarrow> startMatch mid now w)"

text \<open>
  The \<open>answer:submit\<close> handler.  The player is the authenticated user of the socket; an
  error reply (\<open>answer:submit:error\<close>) is the outcome \<^term>\<open>Throw\<close>.  The question is
  \<open>innings[inningIdx]?.questions[questionIdx]\<close> of the pack, for the two indices of the
  question id; the stored match state is read only afterwards, for the leaderboard.
\<close>

definition resolveQuestion :: "Match \<Rightarrow> string \<Rightarrow> Question option" where
  "resolveQuestion match questionId =
     (case parseQuestionId questionId of
        (Some inningIdx, Some questionIdx) \<Rightarrow>
          (case js_index (m_innings match) inningIdx of
             None \<Rightarrow> None
           | Some inn \<Rightarrow> js_index (questions inn) questionIdx)
      | (_, _) \<Rightarrow> None)"

definition answerSubmit ::
  "string option \<Rightarrow> string \<Rightarrow> string \<Rightarrow> string \<Rightarrow> real \<Rightarrow> World \<Rightarrow> unit outcome" where
  "answerSubmit userId mid questionId choice clientLatencyMs w =
     (case userId of
        None \<Rightarrow> Throw PlayerNotAuthenticated w
      | Some playerId \<Rightarrow>
          if playerId = [] then Throw PlayerNotAuthenticated w
          else (case findPlayer w playerId of
             None \<Rightarrow> Throw PlayerNotInMatch w
           | Some player \<Rightarrow>
               if p_matchId player \<noteq> mid then Throw PlayerNotInMatch w
               else (case matches w mid of
                  None \<Rightarrow> Throw MatchNotFound w
                | Some match \<Rightarrow>
                    (case resolveQuestion match questionId of
                       None \<Rightarrow> Throw QuestionNotFound w
                     | Some qn \<Rightarrow>
                         (case submitAnswer
                                 \<lparr>r_matchId = mid, r_playerId = playerId,
                                  r_questionId = questionId, r_choice = choice,
                                  r_clientLatencyMs = clientLatencyMs\<rparr>
                                 qn (m_settings match) w of
                            Throw e w1 \<Rightarrow> Throw e w1
                          | Return result w1 \<Rightarrow>
                              (case loadState mid w1 of
                                 Throw e w2 \<Rightarrow> Throw e w2
                               | Return s w2 \<Rightarrow>
                                   updateLeaderboard mid (playerScores w1 mid) w1))))))"

section \<open>Concrete inputs and auxiliary notions\<close>

definition q_mc_example :: Question where
  "q_mc_example =
     \<lparr>q_type = MC, q_text = ''Who won the 1993 World Series?'',
      q_choices = Some [''Phillies'', ''Braves'', ''Blue Jays'', ''Expos''], q_correctIndex = Some 2,
      q_correctAnswer = None, q_correctValue = None, q_mediaUrl = None, q_clipUrl = None\<rparr>"

subsection \<open>Calls for one tuple\<close>

text \<open>The tuple \<open>(matchId, playerId, inningIdx, questionIdx)\<close> a request is for, and
  whether the question model can decide the request's choice without throwing.\<close>

definition request_tuple :: "SubmitAnswerRequest \<Rightarrow> (string \<times> string \<times> int \<times> int) option" where
  "request_tuple request =
     (case parseQuestionId (r_questionId request) of
        (Some inningIdx, Some questionIdx) \<Rightarrow>
          Some (r_matchId request, r_playerId request, inningIdx, questionIdx)
      | (_, _) \<Rightarrow> None)"

definition answerable :: "Question \<Rightarrow> SubmitAnswerRequest \<Rightarrow> bool" where
  "answerable q r = (\<exists>b. isAnswerCorrect q (r_choice r) = Inr b)"

text \<open>The numbers of a request for the tuple \<open>K\<close> fit the \<open>INTEGER\<close> columns of the
  ledger: the two indices, and the latency that is stored as \<open>answerMs\<close>.\<close>

definition storable :: "string \<times> string \<times> int \<times> int \<Rightarrow> SubmitAnswerRequest \<Rightarrow> bool" where
  "storable K r =
     (case K of (mid, pid, inningIdx, questionIdx) \<Rightarrow>
        int32 inningIdx \<and> int32 questionIdx \<and> fitsInteger (r_clientLatencyMs r))"

fun call_ok :: "string \<times> string \<times> int \<times> int \<Rightarrow> call \<Rightarrow> bool" where
  "call_ok K (Arrived r q s) = (request_tuple r = Some K \<and> storable K r)"
| "call_ok K (Scored r q i k co ru b) =
     ((r_matchId r, r_playerId r, i, k) = K \<and> answerable q r \<and> storable K r)"
| "call_ok K (Stored r q i k co ru b) = ((r_matchId r, r_playerId r, i, k) = K \<and> answerable q r)"
| "call_ok K c = True"

definition ledger_inv ::
  "string \<times> string \<times> int \<times> int \<Rightarrow> World \<Rightarrow> World \<Rightarrow> call list \<Rightarrow> bool" where
  "ledger_inv K w0 w cs =
     (distinct (map answer_key (matchAnswers w)) \<and>
      (\<exists>new. matchAnswers w = matchAnswers w0 @ new) \<and>
      matches w = matches w0 \<and> matchPlayers w = matchPlayers w0 \<and>
      list_all (call_ok K) cs \<and>
      length (filter (\<lambda>a. answer_key a = K) (matchAnswers w)) =
        length (filter (\<lambda>a. answer_key a = K) (matchAnswers w0)) +
        length (filter committed cs))"



text \<open>A schedule runs the calls in the order of its indices.\<close>

fun run :: "nat list \<Rightarrow> World \<times> call list \<Rightarrow> World \<times> call list" where
  "run [] cfg = cfg"
| "run (i # sched) (w, cs) =
     (if i < length cs
      then (case step w (cs ! i) of (w', c') \<Rightarrow> run sched (w', cs[i := c']))
      else run sched (w, cs))"

subsection \<open>A match with one inning and two players\<close>

definition settings_grand_slam :: MatchSettings where
  "settings_grand_slam = \<lparr>grandSlam = True, speedBonus = False, timerSec = 20\<rparr>"

definition settings_speed :: MatchSettings where
  "settings_speed = \<lparr>grandSlam = False, speedBonus = True, timerSec = 20\<rparr>"

definition match_one :: Match where
  "match_one =
     \<lparr>m_status = IN_PROGRESS, m_startedAt = Some 0, m_endedAt = None,
      m_settings = settings_grand_slam,
      m_innings = [\<lparr>theme = ''Historic Moments'', questions = [q_mc_example]\<rparr>]\<rparr>"

definition player_a :: MatchPlayer where
  "player_a = \<lparr>p_id = ''pA'', p_matchId = ''m1'', p_nickname = ''Ann'',
                p_avatar = None, p_leftAt = None\<rparr>"

definition player_b :: MatchPlayer where
  "player_b = \<lparr>p_id = ''pB'', p_matchId = ''m1'', p_nickname = ''Bob'',
                p_avatar = None, p_leftAt = None\<rparr>"

text \<open>The match is showing its only question, since time 1000.\<close>

definition state_one :: MatchState where
  "state_one =
     \<lparr>s_matchId = ''m1'', s_phase = QUESTION, s_inning = 0, s_questionIdx = 0,
      s_question = Some (formatQuestion ''m1'' q_mc_example 0 0 20),
      s_endsAt = Some 21000, s_lineScore = [None], s_leaderboard = [], s_players = []\<rparr>"

definition world_one :: World where
  "world_one =
     \<lparr>matches = [''m1'' \<mapsto> match_one], matchPlayers = [player_a, player_b],
      matchAnswers = [], redisState = [''m1'' \<mapsto> state_one], redisAnswers = (\<lambda>k. []),
      redisPaused = {}, timers = []\<rparr>"

definition request_a :: SubmitAnswerRequest where
  "request_a = \<lparr>r_matchId = ''m1'', r_playerId = ''pA'', r_questionId = ''m1-0-0'',
                 r_choice = ''Blue Jays'', r_clientLatencyMs = 2000\<rparr>"

definition request_b :: SubmitAnswerRequest where
  "request_b = \<lparr>r_matchId = ''m1'', r_playerId = ''pB'', r_questionId = ''m1-0-0'',
                 r_choice = ''Blue Jays'', r_clientLatencyMs = 10000\<rparr>"

text \<open>Two calls of player \<open>pA\<close> for question \<open>m1-0-0\<close>, taking turns at every
  \<open>await\<close>.\<close>

definition calls_one :: "(SubmitAnswerRequest \<times> Question \<times> MatchSettings) list" where
  "calls_one = [(request_a, q_mc_example, settings_grand_slam),
                (request_a\<lparr>r_choice := ''Expos''\<rparr>, q_mc_example, settings_grand_slam)]"

definition final_one :: "World \<times> call list" where
  "final_one = run [0, 1, 0, 1, 0, 1] (world_one, map (\<lambda>(r, q, s). Arrived r q s) calls_one)"



text \<open>The correct answers of the players \<open>pA\<close> and \<open>pB\<close> to question \<open>m1-0-0\<close>,
  in flight at the same time: each call reads the ledger before the other has stored its
  row.\<close>

definition calls_two :: "(SubmitAnswerRequest \<times> Question \<times> MatchSettings) list" where
  "calls_two = [(request_a, q_mc_example, settings_grand_slam),
                (request_b, q_mc_example, settings_grand_slam)]"

definition final_two :: "World \<times> call list" where
  "final_two = run [0, 1, 0, 1, 0, 1] (world_one, map (\<lambda>(r, q, s). Arrived r q s) calls_two)"

text \<open>The same run stopped after its third step: both calls have read the ledger, and the
  call of \<open>pA\<close> has stored its row.\<close>

definition halfway_two :: "World \<times> call list" where
  "halfway_two = run [0, 1, 0] (world_one, map (\<lambda>(r, q, s). Arrived r q s) calls_two)"

subsection \<open>The scoring rule in the words of the specification\<close>

text \<open>No correct answer is recorded in the ledger for the question.\<close>

definition first_correct :: "World \<Rightarrow> string \<Rightarrow> int \<Rightarrow> int \<Rightarrow> bool" where
  "first_correct w mid inningIdx questionIdx =
     (\<not> list_ex (\<lambda>a. a_matchId a = mid \<and> a_inningIdx a = inningIdx \<and>
                      a_questionIdx a = questionIdx \<and> a_isCorrect a) (matchAnswers w))"

text \<open>The runs and the bonus flag by the four rules: incorrect; grand slam enabled and
  first correct answer; speed bonus enabled, not a grand slam, and answered within a quarter
  of the timer; otherwise.\<close>

definition runs_by_rule :: "bool \<Rightarrow> bool \<Rightarrow> bool \<Rightarrow> bool \<Rightarrow> real \<Rightarrow> int \<Rightarrow> int \<times> bool" where
  "runs_by_rule correct grandSlamEnabled speedBonusEnabled firstCorrect answerMs timerSecs =
     (if \<not> correct then (0, False)
      else if grandSlamEnabled \<and> firstCorrect then (4, True)
      else if speedBonusEnabled \<and> \<not> (grandSlamEnabled \<and> firstCorrect) \<and>
              answerMs \<le> 0.25 * real_of_int timerSecs * 1000
      then (4, True)
      else (1, False))"

text \<open>The world after player \<open>pA\<close> has answered question \<open>m1-0-0\<close>.\<close>

definition world_after_a :: World where
  "world_after_a = world_of (submitAnswer request_a q_mc_example settings_grand_slam world_one)"

text \<open>The world after player \<open>pB\<close> has answered as well.\<close>

definition world_after_b :: World where
  "world_after_b =
     world_of (submitAnswer request_b q_mc_example settings_grand_slam world_after_a)"

subsection \<open>The order of the leaderboard\<close>

text \<open>Descending runs, ties broken by ascending total time.\<close>

definition ranks_before :: "PlayerScore \<Rightarrow> PlayerScore \<Rightarrow> bool" where
  "ranks_before a b =
     (ps_runs a > ps_runs b \<or> (ps_runs a = ps_runs b \<and> ps_totalTimeMs a \<le> ps_totalTimeMs b))"

text \<open>The answers of one player in one match.\<close>

definition answers_of :: "World \<Rightarrow> string \<Rightarrow> string \<Rightarrow> MatchAnswer list" where
  "answers_of w mid pid = filter (\<lambda>a. a_matchId a = mid \<and> a_playerId a = pid) (matchAnswers w)"

subsection \<open>Reveal of the only question\<close>

text \<open>
  \<open>parseFloat\<close> on the choices the examples use, which are short strings of decimal
  digits; any other string is taken as not numeric.  The numbers of the examples are small
  integers, whose difference is computed exactly.
\<close>

definition parseFloat_digits :: "string \<Rightarrow> jsnumber" where
  "parseFloat_digits s =
     (if s \<noteq> [] \<and> list_all isDigit s then JsNum (real_of_int (digitsVal s)) else JsNaN)"

definition subtract_exact :: "real \<Rightarrow> real \<Rightarrow> jsnumber" where
  "subtract_exact a b = JsNum (a - b)"

text \<open>The host reveals the question of \<open>world_one\<close> before anybody has answered.\<close>

definition world_revealed :: World where
  "world_revealed = world_of (revealAnswer parseFloat_digits subtract_exact ''m1'' world_one)"

text \<open>The id of question \<open>m1-0-0\<close> written with a no-break space (U+00A0) before the
  last digit.\<close>

definition questionId_nbsp :: string where
  "questionId_nbsp = ''m1-0-'' @ [CHR 0xC2, CHR 0xA0] @ ''0''"

subsection \<open>The stored phase of a match\<close>

definition phase_of :: "World \<Rightarrow> string \<Rightarrow> MatchPhase option" where
  "phase_of w mid = map_option s_phase (redisState w mid)"

subsection \<open>A match in the lobby whose first question has no text\<close>

definition q_blank :: Question where
  "q_blank = q_mc_example\<lparr>q_text := ''   ''\<rparr>"

definition match_bad :: Match where
  "match_bad =
     \<lparr>m_status = Status_LOBBY, m_startedAt = None, m_endedAt = None,
      m_settings = settings_grand_slam,
      m_innings = [\<lparr>theme = ''Historic Moments'', questions = [q_blank]\<rparr>]\<rparr>"

definition state_lobby :: MatchState where
  "state_lobby =
     \<lparr>s_matchId = ''m2'', s_phase = LOBBY, s_inning = 0, s_questionIdx = 0,
      s_question = None, s_endsAt = None, s_lineScore = [None], s_leaderboard = [],
      s_players = []\<rparr>"

definition world_bad :: World where
  "world_bad =
     \<lparr>matches = [''m2'' \<mapsto> match_bad], matchPlayers = [], matchAnswers = [],
      redisState = [''m2'' \<mapsto> state_lobby], redisAnswers = (\<lambda>k. []),
      redisPaused = {}, timers = []\<rparr>"

subsection \<open>A match with three questions, and two stretch timers\<close>






subsection \<open>A closest-number question answered by three players\<close>

definition q_closest :: Question where
  "q_closest =
     \<lparr>q_type = Closest, q_text = ''How many home runs did Jose Bautista hit in 2010?'',
      q_choices = None, q_correctIndex = None, q_correctAnswer = None,
      q_correctValue = Some 54,
      q_mediaUrl = None, q_clipUrl = None\<rparr>"

definition match_closest :: Match where
  "match_closest =
     \<lparr>m_status = IN_PROGRESS, m_startedAt = Some 0, m_endedAt = None,
      m_settings = settings_grand_slam,
      m_innings = [\<lparr>theme = ''Players and Stats'', questions = [q_closest]\<rparr>]\<rparr>"

definition state_closest :: MatchState where
  "state_closest =
     \<lparr>s_matchId = ''m4'', s_phase = QUESTION, s_inning = 0, s_questionIdx = 0,
      s_question = Some (formatQuestion ''m4'' q_closest 0 0 20),
      s_endsAt = Some 21000, s_lineScore = [None], s_leaderboard = [], s_players = []\<rparr>"

definition closest_players :: "MatchPlayer list" where
  "closest_players =
     [\<lparr>p_id = ''P1'', p_matchId = ''m4'', p_nickname = ''Pat'', p_avatar = None, p_leftAt = None\<rparr>,
      \<lparr>p_id = ''P2'', p_matchId = ''m4'', p_nickname = ''Quinn'', p_avatar = None, p_leftAt = None\<rparr>,
      \<lparr>p_id = ''P3'', p_matchId = ''m4'', p_nickname = ''Ray'', p_avatar = None, p_leftAt = None\<rparr>]"

definition world_closest :: World where
  "world_closest =
     \<lparr>matches = [''m4'' \<mapsto> match_closest], matchPlayers = closest_players,
      matchAnswers = [], redisState = [''m4'' \<mapsto> state_closest],
      redisAnswers = (\<lambda>k. []), redisPaused = {}, timers = []\<rparr>"

text \<open>\<open>P1\<close> answers 54, \<open>P2\<close> answers 50 and \<open>P3\<close> answers 54, through the
  \<open>answer:submit\<close> handler.\<close>

definition world_closest_answered :: World where
  "world_closest_answered =
     world_of (answerSubmit (Some ''P3'') ''m4'' ''m4-0-0'' ''54'' 3000
       (world_of (answerSubmit (Some ''P2'') ''m4'' ''m4-0-0'' ''50'' 2000
          (world_of (answerSubmit (Some ''P1'') ''m4'' ''m4-0-0'' ''54'' 1000 world_closest)))))"

subsection \<open>The closest answers in the words of the specification\<close>

text \<open>An answer is numeric when its choice parses as a number; its distance from the
  correct value is \<open>|correctValue - parsedChoice|\<close>.\<close>

definition numeric :: "(string \<Rightarrow> jsnumber) \<Rightarrow> MatchAnswer \<Rightarrow> bool" where
  "numeric parseFloat a = (\<not> isNaN (parseFloat (a_choice a)))"

definition distance ::
  "(string \<Rightarrow> jsnumber) \<Rightarrow> (real \<Rightarrow> real \<Rightarrow> jsnumber) \<Rightarrow> real \<Rightarrow> MatchAnswer \<Rightarrow> jsnumber" where
  "distance parseFloat subtract cv a = js_abs (js_minus subtract (Some cv) (parseFloat (a_choice a)))"

text \<open>An answer wins when it is numeric and no numeric answer is nearer.\<close>

definition wins ::
  "(string \<Rightarrow> jsnumber) \<Rightarrow> (real \<Rightarrow> real \<Rightarrow> jsnumber) \<Rightarrow> real \<Rightarrow> MatchAnswer list \<Rightarrow> MatchAnswer
     \<Rightarrow> bool" where
  "wins parseFloat subtract cv answers a =
     (numeric parseFloat a \<and>
      list_all (\<lambda>b. \<not> (numeric parseFloat b \<and>
                        js_lt (distance parseFloat subtract cv b) (distance parseFloat subtract cv a)))
        answers)"

text \<open>What the loop of \<open>handleClosestQuestion\<close> holds after the answers \<open>xs\<close>: the
  least distance seen, or \<open>Infinity\<close>, and the ids of the numeric answers at that
  distance.\<close>

definition loop_inv ::
  "(string \<Rightarrow> jsnumber) \<Rightarrow> (real \<Rightarrow> real \<Rightarrow> jsnumber) \<Rightarrow> real \<Rightarrow> jsnumber \<times> nat list
     \<Rightarrow> MatchAnswer list \<Rightarrow> bool" where
  "loop_inv parseFloat subtract cv acc xs =
     ((fst acc = JsInf \<or>
       list_ex (\<lambda>a. numeric parseFloat a \<and> distance parseFloat subtract cv a = fst acc) xs) \<and>
      list_all (\<lambda>b. \<not> (numeric parseFloat b \<and>
                        js_lt (distance parseFloat subtract cv b) (fst acc))) xs \<and>
      snd acc =
        map a_id (filter (\<lambda>a. numeric parseFloat a \<and>
                              distance parseFloat subtract cv a = fst acc) xs))"

subsection \<open>Questions whose \<open>correctIndex\<close> is not an index\<close>

text \<open>The \<open>correctIndex\<close> of the question is present and an integer, as the schema of
  the pack import declares it (\<open>z.number().int()\<close>).\<close>

definition integerIndex :: "Question \<Rightarrow> bool" where
  "integerIndex q =
     (case q_correctIndex q of None \<Rightarrow> False | Some r \<Rightarrow> r = real_of_int \<lfloor>r\<rfloor>)"

text \<open>The example question with \<open>correctIndex\<close> one half, and with no
  \<open>correctIndex\<close> at all.\<close>

definition q_half :: Question where
  "q_half = q_mc_example\<lparr>q_correctIndex := Some (1 / 2)\<rparr>"

definition q_no_index :: Question where
  "q_no_index = q_mc_example\<lparr>q_correctIndex := None\<rparr>"
section \<open>Basic facts about outcomes and submission\<close>

lemma outcome_Return: "result_of out = Inr a \<Longrightarrow> out = Return a (world_of out)"
  by (cases out) auto

lemma outcome_Throw: "result_of out = Inl e \<Longrightarrow> out = Throw e (world_of out)"
  by (cases out) auto

lemma submitAnswer_Return:
  assumes "submitAnswer request question settings w = Return res w'"
  shows "\<exists>i k correct row w1.
           parseQuestionId (r_questionId request) = (Some i, Some k) \<and>
           isAnswerCorrect question (r_choice request) = Inr correct \<and>
           res_isCorrect res = correct \<and>
           res_answerMs res = r_clientLatencyMs request \<and>
           (res_runsAwarded res, res_bonusAwarded res) =
              calculateRuns correct (r_clientLatencyMs request) settings
                (isGrandSlam w (r_matchId request) i k) \<and>
           create (newAnswer request i k correct (res_bonusAwarded res)) w = Return row w1 \<and>
           w' = sadd (r_matchId request, i, k)
                  (answerData request correct (res_runsAwarded res) (res_bonusAwarded res)) w1"
  using assms
  by (auto simp: submitAnswer_def Let_def
      split: sum.splits prod.splits option.splits outcome.splits)

lemma submitAnswer_Return_answer:
  assumes "submitAnswer request question settings w = Return res w'"
  shows "getCorrectAnswer question = Inr (res_correctAnswer res)"
  using assms
  by (auto simp: submitAnswer_def Let_def
      split: sum.splits prod.splits option.splits outcome.splits)

lemma submitAnswer_Return_intro:
  assumes "parseQuestionId (r_questionId request) = (Some i, Some k)"
    and "isAnswerCorrect question (r_choice request) = Inr correct"
    and "create (newAnswer request i k correct
           (snd (calculateRuns correct (r_clientLatencyMs request) settings
              (isGrandSlam w (r_matchId request) i k)))) w = Return row w1"
  shows "\<exists>res w'. submitAnswer request question settings w = Return res w' \<and>
           res_isCorrect res = correct \<and>
           res_answerMs res = r_clientLatencyMs request \<and>
           (\<exists>v. getCorrectAnswer question = Inr v \<and> res_correctAnswer res = v) \<and>
           (res_runsAwarded res, res_bonusAwarded res) =
              calculateRuns correct (r_clientLatencyMs request) settings
                (isGrandSlam w (r_matchId request) i k)"
proof -
  from assms(2) obtain v where "getCorrectAnswer question = Inr v"
    by (auto simp: isAnswerCorrect_def getCorrectAnswer_def split: QuestionType.splits option.splits)
  with assms show ?thesis
    by (auto simp: submitAnswer_def Let_def split: prod.splits)
qed

section \<open>Properties of the question model\<close>

lemma validateQuestion_choices:
  assumes "validateQuestion q = Valid" and "q_type q = MC \<or> q_type q = Media"
  shows "\<exists>cs. q_choices q = Some cs \<and> 2 \<le> length cs \<and>
              \<not> num_lt (q_correctIndex q) 0 \<and>
              \<not> num_ge (q_correctIndex q) (real (length cs))"
  using assms
  by (auto simp: validateQuestion_def split: if_splits option.splits QuestionType.splits)

lemma integer_index_in_bounds:
  assumes "integerIndex q"
    and "\<not> num_lt (q_correctIndex q) 0" and "\<not> num_ge (q_correctIndex q) (real (length cs))"
  shows "\<exists>i. q_correctIndex q = Some (real_of_int i) \<and> 0 \<le> i \<and> i < int (length cs) \<and>
             js_index_num cs (q_correctIndex q) = Some (cs ! nat i)"
proof -
  from assms(1) obtain r where r: "q_correctIndex q = Some r" "r = real_of_int \<lfloor>r\<rfloor>"
    by (auto simp: integerIndex_def split: option.splits)
  define i where "i = \<lfloor>r\<rfloor>"
  with r have ri: "r = real_of_int i" by simp
  from assms(2,3) r(1) ri have "0 \<le> i" "i < int (length cs)"
    by (simp_all add: num_lt_def num_ge_def)
  with r(1) ri show ?thesis
    by (auto simp: js_index_num_def js_index_def)
qed

text \<open>
  C10, the failing case.  \<open>validateQuestion\<close> accepts the multiple-choice question
  whose \<open>correctIndex\<close> is one half, and the one that has no \<open>correctIndex\<close>: both
  comparisons of the bounds check are false for them.  \<open>choices[correctIndex]\<close> is then
  \<open>undefined\<close>: \<open>getCorrectAnswer\<close> returns \<open>undefined\<close> and
  \<open>isAnswerCorrect\<close> is false for every answer.
\<close>

theorem validated_question_without_integer_index:
  "validateQuestion q_half = Valid \<and> getCorrectAnswer q_half = Inr None \<and>
   (\<forall>a. isAnswerCorrect q_half a = Inr False) \<and>
   validateQuestion q_no_index = Valid \<and> getCorrectAnswer q_no_index = Inr None \<and>
   (\<forall>a. isAnswerCorrect q_no_index a = Inr False)"
proof -
  have "validateQuestion q_half = Valid" "validateQuestion q_no_index = Valid"
    by code_simp+
  moreover have "js_index_num cs (Some (1 / 2)) = None" for cs :: "string list"
    by (simp add: js_index_num_def)
  then have "getCorrectAnswer q_half = Inr None" "isAnswerCorrect q_half a = Inr False" for a
    by (simp_all add: getCorrectAnswer_def isAnswerCorrect_def q_half_def q_mc_example_def)
  moreover have "getCorrectAnswer q_no_index = Inr None"
    "isAnswerCorrect q_no_index a = Inr False" for a
    by (simp_all add: getCorrectAnswer_def isAnswerCorrect_def q_no_index_def q_mc_example_def
        js_index_num_def)
  ultimately show ?thesis by simp
qed

text \<open>
  C10, amended.  A question accepted by \<open>validateQuestion\<close> whose
  \<open>correctIndex\<close> is an integer when it is a multiple-choice or media question has at
  least two choices and the \<open>correctIndex\<close> inside the array, so the read
  \<open>choices[correctIndex]\<close> of \<open>getCorrectAnswer\<close> and \<open>isAnswerCorrect\<close> is in
  bounds; for every such question both functions return a defined value (no
  \<open>undefined\<close>, no exception).
\<close>

theorem validated_question_reads_in_bounds:
  assumes "validateQuestion q = Valid"
    and "q_type q = MC \<or> q_type q = Media \<longrightarrow> integerIndex q"
  shows "(\<exists>v. getCorrectAnswer q = Inr (Some v)) \<and> (\<exists>b. isAnswerCorrect q a = Inr b) \<and>
         (q_type q = MC \<or> q_type q = Media \<longrightarrow>
            (\<exists>cs i. q_choices q = Some cs \<and> 2 \<le> length cs \<and>
                  q_correctIndex q = Some (real_of_int i) \<and> 0 \<le> i \<and> i < int (length cs) \<and>
                  js_index_num cs (q_correctIndex q) = Some (cs ! nat i) \<and>
                  getCorrectAnswer q = Inr (Some (AString (cs ! nat i))) \<and>
                  isAnswerCorrect q a = Inr (cs ! nat i = a)))"
proof (cases "q_type q = MC \<or> q_type q = Media")
  case True
  with assms validateQuestion_choices[of q] obtain cs where
    cs: "q_choices q = Some cs" "2 \<le> length cs" "\<not> num_lt (q_correctIndex q) 0"
      "\<not> num_ge (q_correctIndex q) (real (length cs))" and int: "integerIndex q"
    by auto
  from integer_index_in_bounds[OF int cs(3,4)] obtain i where
    i: "q_correctIndex q = Some (real_of_int i)" "0 \<le> i" "i < int (length cs)"
      "js_index_num cs (q_correctIndex q) = Some (cs ! nat i)"
    by auto
  from True cs(1) i(4) have
    g: "getCorrectAnswer q = Inr (Some (AString (cs ! nat i)))" and
    a: "isAnswerCorrect q a = Inr (cs ! nat i = a)"
    by (auto simp: getCorrectAnswer_def isAnswerCorrect_def)
  from cs(1,2) i g a show ?thesis by auto
next
  case False
  then have "q_type q = TF \<or> q_type q = Closest" by (cases "q_type q") auto
  with assms(1) False show ?thesis
    by (auto simp: validateQuestion_def getCorrectAnswer_def isAnswerCorrect_def
        split: if_splits option.splits)
qed

lemma q_mc_example_valid: "validateQuestion q_mc_example = Valid"
  by code_simp

lemma q_mc_example_integer: "integerIndex q_mc_example"
  by (simp add: integerIndex_def q_mc_example_def)

theorem validated_question_reads_in_bounds_witness:
  "validateQuestion q_mc_example = Valid \<and> integerIndex q_mc_example \<and>
   getCorrectAnswer q_mc_example = Inr (Some (AString ''Blue Jays'')) \<and>
   isAnswerCorrect q_mc_example ''Blue Jays'' = Inr True \<and>
   isAnswerCorrect q_mc_example ''Expos'' = Inr False"
proof -
  have i: "q_type q_mc_example = MC \<or> q_type q_mc_example = Media \<longrightarrow> integerIndex q_mc_example"
    by (simp add: q_mc_example_integer)
  have c: "q_choices q_mc_example = Some [''Phillies'', ''Braves'', ''Blue Jays'', ''Expos'']"
    "q_correctIndex q_mc_example = Some 2" "q_type q_mc_example = MC"
    by (simp_all add: q_mc_example_def)
  from validated_question_reads_in_bounds[OF q_mc_example_valid i, of "''Blue Jays''"]
    validated_question_reads_in_bounds[OF q_mc_example_valid i, of "''Expos''"]
  show ?thesis
    by (auto simp: q_mc_example_valid q_mc_example_integer c)
qed
section \<open>Exactly one answer per player and question\<close>

lemma isAnswerCorrect_getCorrectAnswer:
  "isAnswerCorrect q c = Inr b \<Longrightarrow> \<exists>v. getCorrectAnswer q = Inr v"
  by (auto simp: isAnswerCorrect_def getCorrectAnswer_def split: QuestionType.splits option.splits)

lemma sadd_fields [simp]:
  "matchAnswers (sadd k m w) = matchAnswers w"
  "matches (sadd k m w) = matches w"
  "matchPlayers (sadd k m w) = matchPlayers w"
  by (simp_all add: sadd_def)

lemma create_Return:
  "create d w = Return stored w' \<Longrightarrow>
     data_key d \<notin> set (map answer_key (matchAnswers w)) \<and>
     answer_key stored = data_key d \<and>
     matchAnswers w' = matchAnswers w @ [stored] \<and>
     matches w' = matches w \<and> matchPlayers w' = matchPlayers w"
  by (auto simp: create_def Let_def answer_key_def data_key_def split: if_splits)

lemma create_Throw:
  "create d w = Throw e w' \<Longrightarrow>
     w' = w \<and>
     (if \<not> (int32 (d_inningIdx d) \<and> int32 (d_questionIdx d) \<and> fitsInteger (d_answerMs d))
      then e = PrismaValidationError
      else if data_key d \<in> set (map answer_key (matchAnswers w))
      then e = UniqueConstraintViolation else e = ForeignKeyViolation \<and>
        (matches w (d_matchId d) = None \<or> d_playerId d \<notin> set (map p_id (matchPlayers w))))"
  by (auto simp: create_def Let_def split: if_splits)

lemma newAnswer_fields [simp]:
  "d_matchId (newAnswer r i k co b) = r_matchId r"
  "d_playerId (newAnswer r i k co b) = r_playerId r"
  "d_inningIdx (newAnswer r i k co b) = i"
  "d_questionIdx (newAnswer r i k co b) = k"
  "d_answerMs (newAnswer r i k co b) = r_clientLatencyMs r"
  by (simp_all add: newAnswer_def)

lemma data_key_newAnswer [simp]:
  "data_key (newAnswer r i k co b) = (r_matchId r, r_playerId r, i, k)"
  by (simp add: data_key_def newAnswer_def)

text \<open>What one step does to the ledger and to the call that takes it.\<close>

lemma step_effect:
  assumes "step w c = (w', c')" and "call_ok K c"
  shows "matches w' = matches w \<and> matchPlayers w' = matchPlayers w \<and> call_ok K c' \<and>
         ((matchAnswers w' = matchAnswers w \<and> committed c' = committed c) \<or>
          (\<exists>row. matchAnswers w' = matchAnswers w @ [row] \<and> answer_key row = K \<and>
                 K \<notin> set (map answer_key (matchAnswers w)) \<and>
                 \<not> committed c \<and> committed c'))"
proof (cases c)
  case (Arrived r q s)
  with assms show ?thesis
    by (auto simp: request_tuple_def answerable_def Let_def
        split: sum.splits prod.splits option.splits)
next
  case (Scored r q i k co ru b)
  show ?thesis
  proof (cases "create (newAnswer r i k co b) w")
    case (Throw e w1)
    with assms Scored create_Throw[OF Throw] show ?thesis by (auto split: if_splits)
  next
    case (Return stored w1)
    with assms Scored create_Return[OF Return] show ?thesis by auto
  qed
next
  case (Stored r q i k co ru b)
  with assms have "answerable q r" by simp
  then obtain v where "getCorrectAnswer q = Inr v"
    unfolding answerable_def by (blast dest: isAnswerCorrect_getCorrectAnswer)
  with assms Stored show ?thesis by (auto simp: Let_def)
next
  case (Resolved r)
  with assms show ?thesis by auto
next
  case (Rejected e)
  with assms show ?thesis by auto
qed

lemma length_filter_update:
  "i < length cs \<Longrightarrow>
   length (filter P (cs[i := c])) + (if P (cs ! i) then 1 else 0) =
   length (filter P cs) + (if P c then 1 else 0)"
proof (induction cs arbitrary: i)
  case Nil
  then show ?case by simp
next
  case (Cons x xs)
  show ?case
  proof (cases i)
    case 0
    then show ?thesis by simp
  next
    case (Suc j)
    with Cons.prems have "j < length xs" by simp
    from Cons.IH[OF this] Suc show ?thesis by simp
  qed
qed

lemma list_all_update:
  "list_all P cs \<Longrightarrow> P c \<Longrightarrow> list_all P (cs[i := c])"
  by (auto simp: list_all_iff dest: set_update_subset_insert[THEN subsetD])

lemma ledger_inv_step:
  assumes inv: "ledger_inv K w0 w cs" and st: "interleave (w, cs) (w', cs')"
  shows "ledger_inv K w0 w' cs'"
proof -
  from st obtain i c' where i: "i < length cs" and s: "step w (cs ! i) = (w', c')"
    and cs': "cs' = cs[i := c']"
    by (auto elim: interleave.cases)
  from inv i have ok: "call_ok K (cs ! i)"
    by (simp add: ledger_inv_def list_all_length)
  note eff = step_effect[OF s ok]
  from length_filter_update[OF i, of committed c']
  have cnt: "length (filter committed cs') + (if committed (cs ! i) then 1 else 0) =
             length (filter committed cs) + (if committed c' then 1 else 0)"
    by (simp add: cs')
  from eff have okall: "list_all (call_ok K) cs'"
    using inv by (simp add: cs' ledger_inv_def list_all_update)
  from eff show ?thesis
  proof (elim conjE disjE exE)
    assume "matchAnswers w' = matchAnswers w" "committed c' = committed (cs ! i)"
      "matches w' = matches w" "matchPlayers w' = matchPlayers w"
    with inv cnt okall show ?thesis
      by (auto simp: ledger_inv_def split: if_splits)
  next
    fix row
    assume "matchAnswers w' = matchAnswers w @ [row]" "answer_key row = K"
      "K \<notin> set (map answer_key (matchAnswers w))" "\<not> committed (cs ! i)" "committed c'"
      "matches w' = matches w" "matchPlayers w' = matchPlayers w"
    with inv cnt okall show ?thesis
      by (auto simp: ledger_inv_def split: if_splits)
  qed
qed

lemma ledger_inv_run:
  assumes "interleave\<^sup>*\<^sup>* (w0, cs0) (w, cs)" and "ledger_inv K w0 w0 cs0"
  shows "ledger_inv K w0 w cs"
  using assms
  by (induction rule: rtranclp_induct2) (auto intro: ledger_inv_step)










text \<open>Run alone, a call takes its three steps one after the other: that is
  \<open>submitAnswer\<close>.\<close>

lemma submitAnswer_steps:
  "submitAnswer request question settings w =
     outcome_of (case step w (Arrived request question settings) of
                   (w1, c1) \<Rightarrow> (case step w1 c1 of (w2, c2) \<Rightarrow> step w2 c2))"
  by (auto simp: submitAnswer_def Let_def split: sum.splits option.splits prod.splits outcome.splits)





lemma final_one_ledger:
  "matchAnswers (fst final_one) =
     [\<lparr>a_id = 1, a_matchId = ''m1'', a_playerId = ''pA'', a_inningIdx = 0,
       a_questionIdx = 0, a_choice = ''Blue Jays'', a_isCorrect = True,
       a_answerMs = 2000, a_bonusAwarded = True\<rparr>]"
  by code_simp





section \<open>Runs awarded\<close>

lemma isGrandSlam_first_correct: "isGrandSlam w mid i k = first_correct w mid i k"
  by (auto simp: isGrandSlam_def first_correct_def list_ex_iff filter_empty_conv)

lemma calculateRuns_by_rule:
  "calculateRuns correct answerMs settings (isGrandSlam w mid i k) =
     runs_by_rule correct (grandSlam settings) (speedBonus settings)
       (first_correct w mid i k) answerMs (timerSec settings)"
  by (simp add: calculateRuns_def runs_by_rule_def isGrandSlam_first_correct mult.commute)

lemma create_stored:
  assumes "create d w = Return stored w'"
  shows "matchAnswers w' = matchAnswers w @ [stored] \<and> redisAnswers w' = redisAnswers w \<and>
         answer_key stored = data_key d \<and> a_choice stored = d_choice d \<and>
         a_isCorrect stored = d_isCorrect d \<and> a_bonusAwarded stored = d_bonusAwarded d \<and>
         real_of_int (a_answerMs stored) = d_answerMs d"
  using assms
  by (auto simp: create_def Let_def answer_key_def data_key_def fitsInteger_def split: if_splits)

lemma sadd_member: "member \<in> set (redisAnswers (sadd cacheKey member w) cacheKey)"
  by (simp add: sadd_def)

text \<open>
  A call of \<open>submitAnswer\<close> that runs alone, with no other call between its
  \<open>await\<close>s, follows the four rules: 0 runs for an incorrect answer; 4 with the bonus
  flag when the answer is correct, grand slam is enabled and no correct answer is recorded
  for the question; 4 with the bonus flag when it is correct, the speed bonus is enabled, it
  is not a grand slam and \<open>answerMs \<le> 0.25 * timerSec * 1000\<close>; otherwise 1 without
  bonus.  The result it returns, the row it appends to the ledger and the entry it adds to
  the cache of the question all carry that correctness, that bonus flag and that time.
\<close>

lemma sequential_runs_by_rule:
  assumes "submitAnswer request question settings w = Return res w'"
  shows "\<exists>inningIdx questionIdx row.
         parseQuestionId (r_questionId request) = (Some inningIdx, Some questionIdx) \<and>
         isAnswerCorrect question (r_choice request) = Inr (res_isCorrect res) \<and>
         res_answerMs res = r_clientLatencyMs request \<and>
         (res_runsAwarded res, res_bonusAwarded res) =
           runs_by_rule (res_isCorrect res) (grandSlam settings) (speedBonus settings)
             (first_correct w (r_matchId request) inningIdx questionIdx)
             (res_answerMs res) (timerSec settings) \<and>
         matchAnswers w' = matchAnswers w @ [row] \<and>
         answer_key row = (r_matchId request, r_playerId request, inningIdx, questionIdx) \<and>
         a_choice row = r_choice request \<and>
         a_isCorrect row = res_isCorrect res \<and> a_bonusAwarded row = res_bonusAwarded res \<and>
         real_of_int (a_answerMs row) = res_answerMs res \<and>
         \<lparr>c_playerId = r_playerId request, c_choice = r_choice request,
          c_isCorrect = res_isCorrect res, c_runsAwarded = res_runsAwarded res,
          c_bonusAwarded = res_bonusAwarded res, c_answerMs = res_answerMs res\<rparr>
           \<in> set (redisAnswers w' (r_matchId request, inningIdx, questionIdx))"
proof -
  from submitAnswer_Return[OF assms] obtain i k correct row w1 where
    p: "parseQuestionId (r_questionId request) = (Some i, Some k)"
    and c: "isAnswerCorrect question (r_choice request) = Inr correct"
      "res_isCorrect res = correct"
    and ms: "res_answerMs res = r_clientLatencyMs request"
    and runs: "(res_runsAwarded res, res_bonusAwarded res) =
              calculateRuns correct (r_clientLatencyMs request) settings
                (isGrandSlam w (r_matchId request) i k)"
    and cr: "create (newAnswer request i k correct (res_bonusAwarded res)) w = Return row w1"
    and w': "w' = sadd (r_matchId request, i, k)
                  (answerData request correct (res_runsAwarded res) (res_bonusAwarded res)) w1"
    by blast
  note st = create_stored[OF cr]
  from st have row: "matchAnswers w1 = matchAnswers w @ [row]"
    "answer_key row = (r_matchId request, r_playerId request, i, k)"
    "a_choice row = r_choice request" "a_isCorrect row = correct"
    "a_bonusAwarded row = res_bonusAwarded res"
    "real_of_int (a_answerMs row) = r_clientLatencyMs request"
    by (simp_all add: newAnswer_def data_key_def)
  have cache: "answerData request correct (res_runsAwarded res) (res_bonusAwarded res)
                 \<in> set (redisAnswers w' (r_matchId request, i, k))"
    unfolding w' by (rule sadd_member)
  have mw: "matchAnswers w' = matchAnswers w1"
    unfolding w' by (simp add: sadd_def)
  from p c ms runs row cache mw show ?thesis
    by (simp add: calculateRuns_by_rule answerData_def)
qed

lemma run_append: "run (xs @ ys) cfg = run ys (run xs cfg)"
  by (induction xs cfg rule: run.induct) (auto split: prod.splits)

lemma submit_a:
  "result_of (submitAnswer request_a q_mc_example settings_grand_slam world_one) =
     Inr \<lparr>res_isCorrect = True, res_correctAnswer = Some (AString ''Blue Jays''),
          res_runsAwarded = 4, res_bonusAwarded = True, res_answerMs = 2000\<rparr>"
  by code_simp

lemma submit_b:
  "result_of (submitAnswer request_b q_mc_example settings_grand_slam world_after_a) =
     Inr \<lparr>res_isCorrect = True, res_correctAnswer = Some (AString ''Blue Jays''),
          res_runsAwarded = 1, res_bonusAwarded = False, res_answerMs = 10000\<rparr>"
  unfolding world_after_a_def by code_simp

text \<open>
  C3, what the code does.  Grand slam is enabled and the players \<open>pA\<close> and \<open>pB\<close>
  answer question \<open>m1-0-0\<close> correctly at the same time.  Each call reads the ledger
  (\<open>isGrandSlam\<close>) before the other has stored its row, so each finds no correct answer.
  When the call of \<open>pB\<close> stores its row, the correct row of \<open>pA\<close> is already in the
  ledger; all the same both calls resolve with 4 runs and the bonus flag, and both stored
  rows and both cache entries carry the bonus.  By the rule the second correct answer
  recorded earns 1 run without bonus.
\<close>

theorem concurrent_correct_answers_both_get_grand_slam:
  "map (\<lambda>a. (a_playerId a, a_isCorrect a)) (matchAnswers (fst halfway_two)) = [(''pA'', True)] \<and>
   first_correct (fst halfway_two) ''m1'' 0 0 = False \<and>
   map resolved (snd halfway_two) = [False, False] \<and>
   final_two = run [1, 0, 1] halfway_two \<and>
   snd final_two =
     [Resolved \<lparr>res_isCorrect = True, res_correctAnswer = Some (AString ''Blue Jays''),
                res_runsAwarded = 4, res_bonusAwarded = True, res_answerMs = 2000\<rparr>,
      Resolved \<lparr>res_isCorrect = True, res_correctAnswer = Some (AString ''Blue Jays''),
                res_runsAwarded = 4, res_bonusAwarded = True, res_answerMs = 10000\<rparr>] \<and>
   matchAnswers (fst final_two) =
     [\<lparr>a_id = 1, a_matchId = ''m1'', a_playerId = ''pA'', a_inningIdx = 0,
       a_questionIdx = 0, a_choice = ''Blue Jays'', a_isCorrect = True,
       a_answerMs = 2000, a_bonusAwarded = True\<rparr>,
      \<lparr>a_id = 2, a_matchId = ''m1'', a_playerId = ''pB'', a_inningIdx = 0,
       a_questionIdx = 0, a_choice = ''Blue Jays'', a_isCorrect = True,
       a_answerMs = 10000, a_bonusAwarded = True\<rparr>] \<and>
   redisAnswers (fst final_two) (''m1'', 0, 0) =
     [\<lparr>c_playerId = ''pA'', c_choice = ''Blue Jays'', c_isCorrect = True,
       c_runsAwarded = 4, c_bonusAwarded = True, c_answerMs = 2000\<rparr>,
      \<lparr>c_playerId = ''pB'', c_choice = ''Blue Jays'', c_isCorrect = True,
       c_runsAwarded = 4, c_bonusAwarded = True, c_answerMs = 10000\<rparr>] \<and>
   runs_by_rule True (grandSlam settings_grand_slam) (speedBonus settings_grand_slam)
     (first_correct (fst halfway_two) ''m1'' 0 0) 10000 (timerSec settings_grand_slam) =
     (1, False)"
proof -
  have "run ([0, 1, 0] @ [1, 0, 1]) cfg = run [1, 0, 1] (run [0, 1, 0] cfg)" for cfg
    by (rule run_append)
  then have "final_two = run [1, 0, 1] halfway_two"
    by (simp only: final_two_def halfway_two_def append.simps)
  moreover have
    "map (\<lambda>a. (a_playerId a, a_isCorrect a)) (matchAnswers (fst halfway_two)) = [(''pA'', True)]"
    "first_correct (fst halfway_two) ''m1'' 0 0 = False"
    "map resolved (snd halfway_two) = [False, False]"
    by code_simp+
  moreover have "snd final_two =
     [Resolved \<lparr>res_isCorrect = True, res_correctAnswer = Some (AString ''Blue Jays''),
                res_runsAwarded = 4, res_bonusAwarded = True, res_answerMs = 2000\<rparr>,
      Resolved \<lparr>res_isCorrect = True, res_correctAnswer = Some (AString ''Blue Jays''),
                res_runsAwarded = 4, res_bonusAwarded = True, res_answerMs = 10000\<rparr>]"
    by code_simp
  moreover have "matchAnswers (fst final_two) =
     [\<lparr>a_id = 1, a_matchId = ''m1'', a_playerId = ''pA'', a_inningIdx = 0,
       a_questionIdx = 0, a_choice = ''Blue Jays'', a_isCorrect = True,
       a_answerMs = 2000, a_bonusAwarded = True\<rparr>,
      \<lparr>a_id = 2, a_matchId = ''m1'', a_playerId = ''pB'', a_inningIdx = 0,
       a_questionIdx = 0, a_choice = ''Blue Jays'', a_isCorrect = True,
       a_answerMs = 10000, a_bonusAwarded = True\<rparr>]"
    by code_simp
  moreover have "redisAnswers (fst final_two) (''m1'', 0, 0) =
     [\<lparr>c_playerId = ''pA'', c_choice = ''Blue Jays'', c_isCorrect = True,
       c_runsAwarded = 4, c_bonusAwarded = True, c_answerMs = 2000\<rparr>,
      \<lparr>c_playerId = ''pB'', c_choice = ''Blue Jays'', c_isCorrect = True,
       c_runsAwarded = 4, c_bonusAwarded = True, c_answerMs = 10000\<rparr>]"
    by code_simp
  moreover have "runs_by_rule True (grandSlam settings_grand_slam) (speedBonus settings_grand_slam)
     (first_correct (fst halfway_two) ''m1'' 0 0) 10000 (timerSec settings_grand_slam) =
     (1, False)"
    by code_simp
  ultimately show ?thesis by simp
qed
section \<open>Client-reported latency and the speed bonus\<close>

text \<open>
  C5, what the code does.  \<open>submitAnswer\<close> has no time of its own: it passes the
  request's \<open>clientLatencyMs\<close> to \<open>calculateRuns\<close> as \<open>answerMs\<close> and stores it in
  the ledger.  With a 20-second timer and the speed bonus enabled (threshold 5000), the
  same correct submission of player \<open>pA\<close> is awarded 4 runs with the bonus when it
  reports a latency of 2000 or of 10, the constant the client sends, and 1 run without bonus
  when it reports 10000; the value reported is the \<open>answerMs\<close> of the stored row.
\<close>

theorem client_latency_changes_runs:
  "result_of (submitAnswer request_a q_mc_example settings_speed world_one) =
     Inr \<lparr>res_isCorrect = True, res_correctAnswer = Some (AString ''Blue Jays''),
          res_runsAwarded = 4, res_bonusAwarded = True, res_answerMs = 2000\<rparr> \<and>
   result_of (submitAnswer (request_a\<lparr>r_clientLatencyMs := 10000\<rparr>) q_mc_example
                settings_speed world_one) =
     Inr \<lparr>res_isCorrect = True, res_correctAnswer = Some (AString ''Blue Jays''),
          res_runsAwarded = 1, res_bonusAwarded = False, res_answerMs = 10000\<rparr> \<and>
   result_of (submitAnswer (request_a\<lparr>r_clientLatencyMs := 10\<rparr>) q_mc_example
                settings_speed world_one) =
     Inr \<lparr>res_isCorrect = True, res_correctAnswer = Some (AString ''Blue Jays''),
          res_runsAwarded = 4, res_bonusAwarded = True, res_answerMs = 10\<rparr> \<and>
   map (\<lambda>a. (a_playerId a, a_isCorrect a, a_answerMs a, a_bonusAwarded a))
     (matchAnswers (world_of (submitAnswer request_a q_mc_example settings_speed world_one))) =
     [(''pA'', True, 2000, True)] \<and>
   map (\<lambda>a. (a_playerId a, a_isCorrect a, a_answerMs a, a_bonusAwarded a))
     (matchAnswers (world_of (submitAnswer (request_a\<lparr>r_clientLatencyMs := 10000\<rparr>)
                                q_mc_example settings_speed world_one))) =
     [(''pA'', True, 10000, False)] \<and>
   r_clientLatencyMs request_a = 2000 \<and>
   request_a\<lparr>r_clientLatencyMs := 10000\<rparr>\<lparr>r_clientLatencyMs := 2000\<rparr> = request_a"
  by code_simp
section \<open>Reveal of a closest-number question\<close>

text \<open>The distance of a numeric answer is \<open>Infinity\<close> or a finite number that is not
  negative, provided the subtraction of two finite numbers is not \<open>NaN\<close>.\<close>

lemma distance_cases:
  assumes "\<forall>x y. subtract x y \<noteq> JsNaN" and "numeric pf a"
  shows "distance pf subtract cv a = JsInf \<or> (\<exists>r. distance pf subtract cv a = JsNum r)"
  using assms
  by (cases "pf (a_choice a)")
    (auto simp: distance_def numeric_def isNaN_def js_minus_def js_abs_def split: jsnumber.splits)

lemma closestLoop_skip:
  "\<not> numeric pf x \<Longrightarrow> closestLoop pf subtract (Some cv) acc x = acc"
  by (simp add: closestLoop_def numeric_def split: prod.splits)

lemma closestLoop_numeric:
  "numeric pf x \<Longrightarrow>
   closestLoop pf subtract (Some cv) (m, ids) x =
     (if js_lt (distance pf subtract cv x) m then (distance pf subtract cv x, [a_id x])
      else if js_eq (distance pf subtract cv x) m then (m, ids @ [a_id x])
      else (m, ids))"
  by (simp add: closestLoop_def numeric_def distance_def Let_def)

lemma js_lt_trans: "js_lt x y \<Longrightarrow> js_lt y z \<Longrightarrow> js_lt x z"
  by (auto simp: js_lt_def split: jsnumber.splits)

lemma js_lt_irrefl: "\<not> js_lt x x"
  by (auto simp: js_lt_def split: jsnumber.splits)

lemma js_total:
  assumes "x = JsInf \<or> (\<exists>r. x = JsNum r)" and "y = JsInf \<or> (\<exists>r. y = JsNum r)"
  shows "js_lt x y \<or> x = y \<or> js_lt y x"
  using assms by (auto simp: js_lt_def)

lemma closestLoop_inv:
  assumes nan: "\<forall>x y. subtract x y \<noteq> JsNaN"
    and inv: "loop_inv pf subtract cv acc xs"
  shows "loop_inv pf subtract cv (closestLoop pf subtract (Some cv) acc x) (xs @ [x])"
proof (cases "numeric pf x")
  case False
  with inv show ?thesis
    by (auto simp: closestLoop_skip loop_inv_def list_ex_iff list_all_iff)
next
  case True
  obtain m ids where acc: "acc = (m, ids)" by (cases acc)
  let ?d = "distance pf subtract cv"
  from distance_cases[OF nan True] have dx: "?d x = JsInf \<or> (\<exists>r. ?d x = JsNum r)" .
  from inv acc have
    ex: "m = JsInf \<or> list_ex (\<lambda>a. numeric pf a \<and> ?d a = m) xs" and
    lb: "list_all (\<lambda>b. \<not> (numeric pf b \<and> js_lt (?d b) m)) xs" and
    ids: "ids = map a_id (filter (\<lambda>a. numeric pf a \<and> ?d a = m) xs)"
    by (simp_all add: loop_inv_def)
  have mc: "m = JsInf \<or> (\<exists>r. m = JsNum r)"
  proof (cases "m = JsInf")
    case True
    then show ?thesis by simp
  next
    case False
    with ex obtain a where "numeric pf a" "?d a = m" by (auto simp: list_ex_iff)
    with distance_cases[OF nan, where pf = pf and a = a and cv = cv] show ?thesis by auto
  qed
  from js_total[OF dx mc] consider "js_lt (?d x) m" | "?d x = m" | "js_lt m (?d x)" by blast
  then show ?thesis
  proof cases
    case 1
    have none: "filter (\<lambda>a. numeric pf a \<and> ?d a = ?d x) xs = []"
      using lb 1 by (auto simp: filter_empty_conv list_all_iff)
    have lb': "list_all (\<lambda>b. \<not> (numeric pf b \<and> js_lt (?d b) (?d x))) xs"
      using lb 1 by (auto simp: list_all_iff dest: js_lt_trans)
    from True 1 none lb' show ?thesis
      by (simp add: acc closestLoop_numeric loop_inv_def js_lt_irrefl)
  next
    case 2
    with dx have eq: "js_eq (?d x) m" by (auto simp: js_eq_def)
    from 2 have nlt: "\<not> js_lt (?d x) m" by (simp add: js_lt_irrefl)
    from True 2 eq nlt ex lb ids show ?thesis
      by (auto simp: acc closestLoop_numeric loop_inv_def)
  next
    case 3
    then have nlt: "\<not> js_lt (?d x) m" by (auto dest: js_lt_trans simp: js_lt_irrefl)
    from 3 have neq: "\<not> js_eq (?d x) m" "?d x \<noteq> m"
      by (auto simp: js_eq_def js_lt_irrefl)
    from 3 dx have "m \<noteq> JsInf" by (auto simp: js_lt_def)
    with True nlt neq ex lb ids show ?thesis
      by (auto simp: acc closestLoop_numeric loop_inv_def)
  qed
qed

lemma foldl_closestLoop_inv:
  assumes "\<forall>x y. subtract x y \<noteq> JsNaN"
  shows "loop_inv pf subtract cv (foldl (closestLoop pf subtract (Some cv)) (JsInf, []) xs) xs"
proof (induction xs rule: rev_induct)
  case Nil
  show ?case by (simp add: loop_inv_def)
next
  case (snoc x xs)
  then show ?case by (simp add: closestLoop_inv[OF assms])
qed

lemma loop_inv_wins:
  assumes nan: "\<forall>x y. subtract x y \<noteq> JsNaN"
    and inv: "loop_inv pf subtract cv acc xs"
  shows "snd acc = map a_id (filter (wins pf subtract cv xs) xs)"
proof -
  let ?d = "distance pf subtract cv"
  let ?m = "fst acc"
  from inv have
    ex: "?m = JsInf \<or> list_ex (\<lambda>a. numeric pf a \<and> ?d a = ?m) xs" and
    lb: "list_all (\<lambda>b. \<not> (numeric pf b \<and> js_lt (?d b) ?m)) xs" and
    ids: "snd acc = map a_id (filter (\<lambda>a. numeric pf a \<and> ?d a = ?m) xs)"
    by (simp_all add: loop_inv_def)
  have "wins pf subtract cv xs a = (numeric pf a \<and> ?d a = ?m)" if a: "a \<in> set xs" for a
  proof
    assume w: "wins pf subtract cv xs a"
    then have n: "numeric pf a"
      and le: "\<And>b. b \<in> set xs \<Longrightarrow> numeric pf b \<Longrightarrow> \<not> js_lt (?d b) (?d a)"
      by (auto simp: wins_def list_all_iff)
    from lb a n have nlt: "\<not> js_lt (?d a) ?m" by (auto simp: list_all_iff)
    from distance_cases[OF nan n] have da: "?d a = JsInf \<or> (\<exists>r. ?d a = JsNum r)" .
    show "numeric pf a \<and> ?d a = ?m"
    proof (cases "?m = JsInf")
      case True
      with nlt da have "?d a = JsInf" by (auto simp: js_lt_def)
      with n True show ?thesis by simp
    next
      case False
      with ex obtain a0 where a0: "a0 \<in> set xs" "numeric pf a0" "?d a0 = ?m"
        by (auto simp: list_ex_iff)
      from le[OF a0(1,2)] a0(3) have "\<not> js_lt ?m (?d a)" by simp
      moreover from distance_cases[OF nan a0(2), where cv = cv] a0(3)
      have "?m = JsInf \<or> (\<exists>r. ?m = JsNum r)" by simp
      ultimately show ?thesis using js_total[OF da, of ?m] nlt n by blast
    qed
  next
    assume "numeric pf a \<and> ?d a = ?m"
    with lb show "wins pf subtract cv xs a" by (simp add: wins_def)
  qed
  then have "filter (wins pf subtract cv xs) xs = filter (\<lambda>a. numeric pf a \<and> ?d a = ?m) xs"
    by (intro filter_cong) auto
  with ids show ?thesis by simp
qed

lemma updateMany_Nil: "updateMany [] w = w"
  by (simp add: updateMany_def)

lemma handleClosestQuestion_wins:
  assumes "q_type qn = Closest" and "q_correctValue qn = Some cv"
    and nan: "\<forall>x y. subtract x y \<noteq> JsNaN"
  shows "handleClosestQuestion pf subtract mid i k qn w =
           Return ()
             (updateMany
                (map a_id
                   (filter (wins pf subtract cv
                              (filter (\<lambda>a. a_matchId a = mid \<and> a_inningIdx a = i \<and>
                                           a_questionIdx a = k) (matchAnswers w)))
                      (filter (\<lambda>a. a_matchId a = mid \<and> a_inningIdx a = i \<and>
                                   a_questionIdx a = k) (matchAnswers w)))) w)"
proof -
  let ?answers = "filter (\<lambda>a. a_matchId a = mid \<and> a_inningIdx a = i \<and> a_questionIdx a = k)
                    (matchAnswers w)"
  obtain mo ids where
    f: "foldl (closestLoop pf subtract (Some cv)) (JsInf, []) ?answers = (mo, ids)"
    by (cases "foldl (closestLoop pf subtract (Some cv)) (JsInf, []) ?answers")
  from loop_inv_wins[OF nan foldl_closestLoop_inv[OF nan, where pf = pf and cv = cv and xs = ?answers]] f
  have ids: "ids = map a_id (filter (wins pf subtract cv ?answers) ?answers)" by simp
  show ?thesis
  proof (cases "?answers = []")
    case True
    with assms show ?thesis by (simp add: handleClosestQuestion_def updateMany_Nil)
  next
    case False
    with assms(1,2) f ids show ?thesis
      by (cases "ids = []") (auto simp: handleClosestQuestion_def Let_def updateMany_Nil)
  qed
qed

lemma distinct_image_filter:
  assumes "distinct (map f xs)" and "a \<in> set xs"
  shows "(f a \<in> f ` set (filter P xs)) = P a"
proof -
  from assms(1) have "inj_on f (set xs)" by (simp add: distinct_map)
  with assms(2) show ?thesis by (auto simp: inj_on_def)
qed

text \<open>
  In the ledger, \<open>handleClosestQuestion\<close> amends exactly the answers to the question
  whose choice is numeric and at the least distance from the correct value: they become
  correct without bonus, and every other row stays as it is.  This holds for every
  \<open>parseFloat\<close> and every subtraction that, like the one of doubles, gives no
  \<open>NaN\<close> for finite numbers; the distances are compared as the doubles the subtraction
  yields.
\<close>

lemma closest_amendment:
  assumes "q_type qn = Closest" and "q_correctValue qn = Some cv"
    and "\<forall>x y. subtract x y \<noteq> JsNaN"
    and "distinct (map a_id (matchAnswers w))"
  shows "\<exists>w'. handleClosestQuestion pf subtract mid i k qn w = Return () w' \<and>
           redisAnswers w' = redisAnswers w \<and>
           matchAnswers w' =
             map (\<lambda>a. if (a_matchId a = mid \<and> a_inningIdx a = i \<and> a_questionIdx a = k) \<and>
                          wins pf subtract cv
                            (filter (\<lambda>a. a_matchId a = mid \<and> a_inningIdx a = i \<and>
                                         a_questionIdx a = k) (matchAnswers w)) a
                       then a\<lparr>a_isCorrect := True, a_bonusAwarded := False\<rparr> else a)
               (matchAnswers w)"
proof -
  let ?Q = "\<lambda>a. a_matchId a = mid \<and> a_inningIdx a = i \<and> a_questionIdx a = k"
  let ?answers = "filter ?Q (matchAnswers w)"
  let ?W = "\<lambda>a. ?Q a \<and> wins pf subtract cv ?answers a"
  have fl: "filter (wins pf subtract cv ?answers) ?answers = filter ?W (matchAnswers w)"
    by (simp add: conj_commute)
  have "(a_id a \<in> set (map a_id (filter ?W (matchAnswers w)))) = ?W a"
    if "a \<in> set (matchAnswers w)" for a
    using distinct_image_filter[OF assms(4) that, of ?W] by simp
  then have "map (\<lambda>a. if a_id a \<in> set (map a_id (filter ?W (matchAnswers w)))
                       then a\<lparr>a_isCorrect := True, a_bonusAwarded := False\<rparr> else a)
               (matchAnswers w) =
             map (\<lambda>a. if ?W a then a\<lparr>a_isCorrect := True, a_bonusAwarded := False\<rparr> else a)
               (matchAnswers w)"
    by (intro map_cong) auto
  with handleClosestQuestion_wins[OF assms(1,2,3), where pf = pf and mid = mid and i = i
      and k = k and w = w] fl show ?thesis
    by (simp add: updateMany_def)
qed

text \<open>At submission a closest answer is recorded as incorrect.\<close>

lemma closest_always_provisionally_incorrect:
  "q_type qn = Closest \<Longrightarrow> isAnswerCorrect qn choice = Inr False"
  by (simp add: isAnswerCorrect_def)

text \<open>
  The payload is built from \<open>getQuestionAnswers\<close>, which prefers the Redis set written
  at submission; \<open>handleClosestQuestion\<close> does not touch that set.
\<close>

lemma handleClosestQuestion_cache:
  assumes "q_type qn = Closest"
  shows "\<exists>w'. handleClosestQuestion pf subtract mid i k qn w = Return () w' \<and>
              redisAnswers w' = redisAnswers w"
  using assms
  by (auto simp: handleClosestQuestion_def Let_def updateMany_def split: prod.splits)

lemma reveal_payload_from_cache:
  assumes "parseQuestionId questionId = (Some i, Some k)"
    and "q_type qn = Closest" and "q_correctValue qn = Some cv"
    and "redisAnswers w (mid, i, k) \<noteq> []"
  shows "\<exists>p w'. generateRevealPayload pf subtract mid questionId qn w = Return p w' \<and>
           map (\<lambda>r. (pr_playerId r, pr_isCorrect r, pr_runsAwarded r)) (rp_playerResults p) =
           map (\<lambda>c. (c_playerId c, c_isCorrect c, c_runsAwarded c)) (redisAnswers w (mid, i, k))"
proof -
  from handleClosestQuestion_cache[OF assms(2), of pf subtract mid i k w]
  obtain w1 where h: "handleClosestQuestion pf subtract mid i k qn w = Return () w1"
    and r: "redisAnswers w1 = redisAnswers w"
    by auto
  with assms show ?thesis
    by (simp add: generateRevealPayload_def getQuestionAnswers_def getCorrectAnswer_def
        Let_def comp_def)
qed

text \<open>The reveal depends on \<open>parseFloat\<close> and on the subtraction only through the
  choices in the ledger and the correct values of the questions of the match.\<close>

lemma closestLoop_cong:
  assumes "pf (a_choice x) = pf' (a_choice x)"
    and "js_minus s cv (pf' (a_choice x)) = js_minus s' cv (pf' (a_choice x))"
  shows "closestLoop pf s cv acc x = closestLoop pf' s' cv acc x"
  using assms by (cases acc) (simp add: closestLoop_def Let_def)

lemma foldl_closestLoop_cong:
  assumes "\<And>x. x \<in> set xs \<Longrightarrow> pf (a_choice x) = pf' (a_choice x) \<and>
             js_minus s cv (pf' (a_choice x)) = js_minus s' cv (pf' (a_choice x))"
  shows "foldl (closestLoop pf s cv) acc xs = foldl (closestLoop pf' s' cv) acc xs"
  using assms
proof (induction xs arbitrary: acc)
  case Nil
  show ?case by simp
next
  case (Cons x xs)
  from Cons.prems[of x] have "closestLoop pf s cv acc x = closestLoop pf' s' cv acc x"
    by (intro closestLoop_cong) simp_all
  with Cons.IH[of "closestLoop pf' s' cv acc x"] Cons.prems show ?case by simp
qed

lemma generateRevealPayload_cong:
  assumes "\<And>x. x \<in> set (matchAnswers w) \<Longrightarrow> pf (a_choice x) = pf' (a_choice x) \<and>
             js_minus s (q_correctValue qn) (pf' (a_choice x)) =
             js_minus s' (q_correctValue qn) (pf' (a_choice x))"
  shows "generateRevealPayload pf s mid qid qn w = generateRevealPayload pf' s' mid qid qn w"
proof -
  have "foldl (closestLoop pf s (q_correctValue qn)) acc (filter P (matchAnswers w)) =
        foldl (closestLoop pf' s' (q_correctValue qn)) acc (filter P (matchAnswers w))" for acc P
    by (rule foldl_closestLoop_cong) (simp add: assms)
  then have h: "\<And>i k. handleClosestQuestion pf s mid i k qn w =
                       handleClosestQuestion pf' s' mid i k qn w"
    by (simp add: handleClosestQuestion_def Let_def)
  show ?thesis unfolding generateRevealPayload_def h by (rule refl)
qed

lemma js_index_mem: "js_index xs i = Some x \<Longrightarrow> x \<in> set xs"
  by (auto simp: js_index_def split: if_splits)

lemma revealAnswer_cong:
  assumes "\<And>match inn qn qid. matches w mid = Some match \<Longrightarrow> inn \<in> set (m_innings match) \<Longrightarrow>
             qn \<in> set (questions inn) \<Longrightarrow>
             generateRevealPayload pf s mid qid qn w = generateRevealPayload pf' s' mid qid qn w"
  shows "revealAnswer pf s mid w = revealAnswer pf' s' mid w"
proof -
  have "generateRevealPayload pf s mid qid qn w = generateRevealPayload pf' s' mid qid qn w"
    if "matches w mid = Some match" "js_index (m_innings match) i = Some inn"
      "js_index (questions inn) k = Some qn" for match inn qn qid i k
    using that by (intro assms[of match inn qn]) (auto dest: js_index_mem)
  then show ?thesis
    by (auto simp: revealAnswer_def split: outcome.splits option.splits)
qed

lemma closest_answered_facts:
  "matches world_closest_answered ''m4'' = Some match_closest"
  "list_all (\<lambda>a. a_choice a = ''54'' \<or> a_choice a = ''50'') (matchAnswers world_closest_answered)"
  by code_simp+

lemma closest_reveal_exact:
  "map (\<lambda>a. (a_playerId a, a_choice a, a_isCorrect a, a_bonusAwarded a))
     (matchAnswers (world_of (revealAnswer parseFloat_digits subtract_exact ''m4''
                                world_closest_answered))) =
     [(''P1'', ''54'', True, False), (''P2'', ''50'', False, False), (''P3'', ''54'', True, False)]"
  "result_of (revealAnswer parseFloat_digits subtract_exact ''m4'' world_closest_answered) =
     Inr \<lparr>rp_questionId = ''m4-0-0'', rp_correctAnswer = ANumber 54,
          rp_correctIndex = None, rp_clipUrl = None,
          rp_playerResults =
            [\<lparr>pr_playerId = ''P1'', pr_nickname = ''Pat'', pr_isCorrect = False,
              pr_runsAwarded = 0\<rparr>,
             \<lparr>pr_playerId = ''P2'', pr_nickname = ''Quinn'', pr_isCorrect = False,
              pr_runsAwarded = 0\<rparr>,
             \<lparr>pr_playerId = ''P3'', pr_nickname = ''Ray'', pr_isCorrect = False,
              pr_runsAwarded = 0\<rparr>]\<rparr>"
  unfolding world_closest_answered_def by code_simp+

lemma parseFloat_digits_examples:
  "parseFloat_digits ''54'' = JsNum 54" "parseFloat_digits ''50'' = JsNum 50"
  by code_simp+

text \<open>
  C4, what the code does.  The correct value is 54 and the players \<open>P1\<close>, \<open>P2\<close>,
  \<open>P3\<close> have submitted 54, 50 and 54.  \<open>parseFloat\<close> reads these choices as the
  numbers 54 and 50, and the differences \<open>54 - 54\<close> and \<open>54 - 50\<close> are 0 and 4, as
  in double arithmetic.  \<open>revealAnswer\<close> amends the ledger as it should (\<open>P1\<close> and
  \<open>P3\<close> correct without bonus, \<open>P2\<close> incorrect), but the payload it returns for
  \<open>question:reveal\<close> reports the provisional results of the cache: all three players
  incorrect with 0 runs.
\<close>

theorem closest_reveal_reports_provisional_results:
  assumes "parseFloat ''54'' = JsNum 54" and "parseFloat ''50'' = JsNum 50"
    and "subtract 54 54 = JsNum 0" and "subtract 54 50 = JsNum 4"
  shows
  "map (\<lambda>a. (a_playerId a, a_choice a, a_isCorrect a, a_bonusAwarded a))
     (matchAnswers (world_of (revealAnswer parseFloat subtract ''m4'' world_closest_answered))) =
     [(''P1'', ''54'', True, False), (''P2'', ''50'', False, False), (''P3'', ''54'', True, False)] \<and>
   result_of (revealAnswer parseFloat subtract ''m4'' world_closest_answered) =
     Inr \<lparr>rp_questionId = ''m4-0-0'', rp_correctAnswer = ANumber 54,
          rp_correctIndex = None, rp_clipUrl = None,
          rp_playerResults =
            [\<lparr>pr_playerId = ''P1'', pr_nickname = ''Pat'', pr_isCorrect = False,
              pr_runsAwarded = 0\<rparr>,
             \<lparr>pr_playerId = ''P2'', pr_nickname = ''Quinn'', pr_isCorrect = False,
              pr_runsAwarded = 0\<rparr>,
             \<lparr>pr_playerId = ''P3'', pr_nickname = ''Ray'', pr_isCorrect = False,
              pr_runsAwarded = 0\<rparr>]\<rparr>"
proof -
  have "generateRevealPayload parseFloat subtract ''m4'' qid qn world_closest_answered =
        generateRevealPayload parseFloat_digits subtract_exact ''m4'' qid qn world_closest_answered"
    if "matches world_closest_answered ''m4'' = Some match" "inn \<in> set (m_innings match)"
      "qn \<in> set (questions inn)" for match inn qn qid
  proof (rule generateRevealPayload_cong)
    fix x assume "x \<in> set (matchAnswers world_closest_answered)"
    with closest_answered_facts(2) have c: "a_choice x = ''54'' \<or> a_choice x = ''50''"
      by (simp add: list_all_iff)
    from that closest_answered_facts(1) have "q_correctValue qn = Some 54"
      by (auto simp: match_closest_def q_closest_def)
    with c assms parseFloat_digits_examples
    show "parseFloat (a_choice x) = parseFloat_digits (a_choice x) \<and>
          js_minus subtract (q_correctValue qn) (parseFloat_digits (a_choice x)) =
          js_minus subtract_exact (q_correctValue qn) (parseFloat_digits (a_choice x))"
      by (auto simp: js_minus_def subtract_exact_def)
  qed
  then have "revealAnswer parseFloat subtract ''m4'' world_closest_answered =
             revealAnswer parseFloat_digits subtract_exact ''m4'' world_closest_answered"
    by (rule revealAnswer_cong)
  with closest_reveal_exact show ?thesis by simp
qed

theorem closest_reveal_reports_provisional_results_witness:
  "parseFloat_digits ''54'' = JsNum 54 \<and> parseFloat_digits ''50'' = JsNum 50 \<and>
   subtract_exact 54 54 = JsNum 0 \<and> subtract_exact 54 50 = JsNum 4 \<and>
   map (\<lambda>a. (a_playerId a, a_choice a, a_isCorrect a, a_bonusAwarded a))
     (matchAnswers (world_of (revealAnswer parseFloat_digits subtract_exact ''m4''
                                world_closest_answered))) =
     [(''P1'', ''54'', True, False), (''P2'', ''50'', False, False), (''P3'', ''54'', True, False)] \<and>
   result_of (revealAnswer parseFloat_digits subtract_exact ''m4'' world_closest_answered) =
     Inr \<lparr>rp_questionId = ''m4-0-0'', rp_correctAnswer = ANumber 54,
          rp_correctIndex = None, rp_clipUrl = None,
          rp_playerResults =
            [\<lparr>pr_playerId = ''P1'', pr_nickname = ''Pat'', pr_isCorrect = False,
              pr_runsAwarded = 0\<rparr>,
             \<lparr>pr_playerId = ''P2'', pr_nickname = ''Quinn'', pr_isCorrect = False,
              pr_runsAwarded = 0\<rparr>,
             \<lparr>pr_playerId = ''P3'', pr_nickname = ''Ray'', pr_isCorrect = False,
              pr_runsAwarded = 0\<rparr>]\<rparr>"
proof -
  have s: "subtract_exact 54 54 = JsNum 0" "subtract_exact 54 50 = JsNum 4"
    by (simp_all add: subtract_exact_def)
  from closest_reveal_reports_provisional_results[of parseFloat_digits subtract_exact,
      OF parseFloat_digits_examples s]
    parseFloat_digits_examples s
  show ?thesis by simp
qed
section \<open>Phase transitions\<close>

lemma endMatch_phase:
  "endMatch mid now w = Return u w' \<Longrightarrow> phase_of w' mid = Some POSTGAME"
  by (auto simp: endMatch_def loadState_def saveState_def phase_of_def Let_def
      split: option.splits)

lemma triggerStretch_phase:
  "triggerStretch mid now w = Return u w' \<Longrightarrow> phase_of w' mid = Some STRETCH"
  by (auto simp: triggerStretch_def loadState_def saveState_def phase_of_def Let_def
      split: option.splits)

lemma showQuestion_phase:
  "showQuestion mid now match s w = Return u w' \<Longrightarrow> phase_of w' mid = Some QUESTION"
  by (auto simp: showQuestion_def saveState_def phase_of_def
      split: option.splits validation.splits)

lemma nextQuestion_phase:
  assumes "nextQuestion mid now w = Return u w'"
  shows "phase_of w' mid = Some QUESTION \<or> phase_of w' mid = Some STRETCH \<or>
         phase_of w' mid = Some POSTGAME"
  using assms endMatch_phase[of mid now w u w'] triggerStretch_phase[of mid now w u w']
    showQuestion_phase[of mid now _ _ w u w']
  by (auto simp: nextQuestion_def loadState_def Let_def split: option.splits if_splits)

lemma startMatch_Return:
  assumes "startMatch mid now w = Return u w'" and "redisState w mid = Some s"
  shows "s_phase s = LOBBY \<and> phase_of w' mid = Some QUESTION"
  using assms
  by (auto simp: startMatch_def loadState_def saveState_def phase_of_def Let_def
      split: option.splits if_splits validation.splits)

lemma revealAnswer_Return:
  assumes "revealAnswer pf sb mid w = Return p w'" and "redisState w mid = Some s"
  shows "s_phase s = QUESTION \<and> phase_of w' mid = Some REVEAL"
  using assms
  by (auto simp: revealAnswer_def loadState_def saveState_def phase_of_def Let_def
      split: option.splits if_splits outcome.splits)

lemma skipQuestion_Return:
  assumes "skipQuestion mid now w = Return u w'" and "redisState w mid = Some s"
  shows "(s_phase s = QUESTION \<or> s_phase s = REVEAL) \<and>
         (phase_of w' mid = Some QUESTION \<or> phase_of w' mid = Some STRETCH \<or>
          phase_of w' mid = Some POSTGAME)"
  using assms nextQuestion_phase[of mid now w u w']
  by (auto simp: skipQuestion_def loadState_def split: if_splits)

lemma transition_Return:
  assumes "transition mid newPhase w = Return u w'" and "redisState w mid = Some s"
  shows "newPhase \<in> set (VALID_TRANSITIONS (s_phase s)) \<and> phase_of w' mid = Some newPhase"
  using assms
  by (auto simp: transition_def loadState_def saveState_def phase_of_def split: if_splits)

lemma pause_resume_phase:
  assumes "redisState w mid = Some s"
  shows "phase_of (world_of (pauseMatch mid w)) mid = Some (s_phase s)"
    and "phase_of (world_of (resumeMatch mid now w)) mid = Some (s_phase s)"
  using assms
  by (auto simp: pauseMatch_def resumeMatch_def loadState_def saveState_def phase_of_def Let_def
      split: option.splits)

lemma not_adjacent_to_LOBBY: "LOBBY \<notin> set (VALID_TRANSITIONS p)"
  by (cases p) (auto simp: VALID_TRANSITIONS_def)

text \<open>
  C2, as the code has it.  For a match with a stored state: \<open>startMatch\<close> outside the
  lobby, \<open>revealAnswer\<close> outside the question phase, \<open>skipQuestion\<close> outside the
  question and reveal phases, and \<open>transition\<close> to a phase that
  \<open>VALID_TRANSITIONS\<close> does not list fail with their error and leave every store
  unchanged.  When they succeed, \<open>startMatch\<close> moves lobby to question,
  \<open>revealAnswer\<close> moves question to reveal, \<open>skipQuestion\<close> moves question or reveal
  to question, stretch or postgame, and \<open>transition\<close> moves along the table, never to
  the lobby.  \<open>pauseMatch\<close> and \<open>resumeMatch\<close> keep the phase.
\<close>

theorem guarded_transitions:
  assumes "redisState w mid = Some s"
  shows "(s_phase s \<noteq> LOBBY \<longrightarrow> startMatch mid now w = Throw StartOnlyFromLobby w) \<and>
         (\<forall>w'. startMatch mid now w = Return () w' \<longrightarrow>
            s_phase s = LOBBY \<and> phase_of w' mid = Some QUESTION) \<and>
         (s_phase s \<noteq> QUESTION \<longrightarrow>
            revealAnswer parseFloat subtract mid w = Throw RevealOnlyDuringQuestion w) \<and>
         (\<forall>p w'. revealAnswer parseFloat subtract mid w = Return p w' \<longrightarrow>
            s_phase s = QUESTION \<and> phase_of w' mid = Some REVEAL) \<and>
         (s_phase s \<noteq> QUESTION \<and> s_phase s \<noteq> REVEAL \<longrightarrow>
            skipQuestion mid now w = Throw SkipOnlyDuringQuestionOrReveal w) \<and>
         (\<forall>w'. skipQuestion mid now w = Return () w' \<longrightarrow>
            (s_phase s = QUESTION \<or> s_phase s = REVEAL) \<and>
            (phase_of w' mid = Some QUESTION \<or> phase_of w' mid = Some STRETCH \<or>
             phase_of w' mid = Some POSTGAME)) \<and>
         (newPhase \<notin> set (VALID_TRANSITIONS (s_phase s)) \<longrightarrow>
            transition mid newPhase w = Throw InvalidStateTransition w) \<and>
         (\<forall>w'. transition mid newPhase w = Return () w' \<longrightarrow>
            newPhase \<in> set (VALID_TRANSITIONS (s_phase s)) \<and> newPhase \<noteq> LOBBY \<and>
            phase_of w' mid = Some newPhase) \<and>
         phase_of (world_of (pauseMatch mid w)) mid = Some (s_phase s) \<and>
         phase_of (world_of (resumeMatch mid now w)) mid = Some (s_phase s)"
proof (intro conjI allI impI)
  assume "s_phase s \<noteq> LOBBY"
  with assms show "startMatch mid now w = Throw StartOnlyFromLobby w"
    by (simp add: startMatch_def loadState_def)
next
  fix w' assume a: "startMatch mid now w = Return () w'"
  from startMatch_Return[OF a assms]
  show "s_phase s = LOBBY" "phase_of w' mid = Some QUESTION" by simp_all
next
  assume "s_phase s \<noteq> QUESTION"
  with assms show "revealAnswer parseFloat subtract mid w = Throw RevealOnlyDuringQuestion w"
    by (simp add: revealAnswer_def loadState_def)
next
  fix p w' assume a: "revealAnswer parseFloat subtract mid w = Return p w'"
  from revealAnswer_Return[OF a assms]
  show "s_phase s = QUESTION" "phase_of w' mid = Some REVEAL" by simp_all
next
  assume "s_phase s \<noteq> QUESTION \<and> s_phase s \<noteq> REVEAL"
  with assms show "skipQuestion mid now w = Throw SkipOnlyDuringQuestionOrReveal w"
    by (simp add: skipQuestion_def loadState_def)
next
  fix w' assume a: "skipQuestion mid now w = Return () w'"
  from skipQuestion_Return[OF a assms]
  show "s_phase s = QUESTION \<or> s_phase s = REVEAL"
    "phase_of w' mid = Some QUESTION \<or> phase_of w' mid = Some STRETCH \<or>
     phase_of w' mid = Some POSTGAME" by simp_all
next
  assume "newPhase \<notin> set (VALID_TRANSITIONS (s_phase s))"
  with assms show "transition mid newPhase w = Throw InvalidStateTransition w"
    by (simp add: transition_def loadState_def)
next
  fix w' assume a: "transition mid newPhase w = Return () w'"
  from transition_Return[OF a assms] not_adjacent_to_LOBBY[of "s_phase s"]
  show "newPhase \<in> set (VALID_TRANSITIONS (s_phase s))" "newPhase \<noteq> LOBBY"
    "phase_of w' mid = Some newPhase" by auto
next
  from pause_resume_phase[OF assms]
  show "phase_of (world_of (pauseMatch mid w)) mid = Some (s_phase s)"
    "phase_of (world_of (resumeMatch mid now w)) mid = Some (s_phase s)" by simp_all
qed

lemma world_one_state: "redisState world_one ''m1'' = Some state_one"
  by (simp add: world_one_def)

lemma world_one_reveal:
  "result_of (revealAnswer parseFloat_digits subtract_exact ''m1'' world_one) =
     Inr \<lparr>rp_questionId = ''m1-0-0'', rp_correctAnswer = AString ''Blue Jays'',
          rp_correctIndex = Some 2, rp_clipUrl = None, rp_playerResults = []\<rparr>"
  by code_simp

theorem guarded_transitions_witness:
  "startMatch ''m1'' 5000 world_one = Throw StartOnlyFromLobby world_one \<and>
   transition ''m1'' STRETCH world_one = Throw InvalidStateTransition world_one \<and>
   phase_of world_revealed ''m1'' = Some REVEAL \<and>
   phase_of (world_of (pauseMatch ''m1'' world_one)) ''m1'' = Some QUESTION"
proof -
  note t = guarded_transitions[OF world_one_state, of 5000 parseFloat_digits subtract_exact STRETCH]
  have ph: "s_phase state_one = QUESTION" by (simp add: state_one_def)
  from t ph have 1: "startMatch ''m1'' 5000 world_one = Throw StartOnlyFromLobby world_one"
    by simp
  from t ph have 2: "transition ''m1'' STRETCH world_one = Throw InvalidStateTransition world_one"
    by (simp add: VALID_TRANSITIONS_def)
  from t outcome_Return[OF world_one_reveal]
  have 3: "phase_of world_revealed ''m1'' = Some REVEAL"
    unfolding world_revealed_def by blast
  from t ph have 4: "phase_of (world_of (pauseMatch ''m1'' world_one)) ''m1'' = Some QUESTION"
    by simp
  from 1 2 3 4 show ?thesis by simp
qed

text \<open>
  The host skips the last question of the pack while it is being shown: the phase goes from
  \<open>question\<close> to \<open>postgame\<close>, which the table does not list, and no error is
  raised.
\<close>

theorem skip_leaves_question_for_postgame:
  "phase_of world_one ''m1'' = Some QUESTION \<and>
   POSTGAME \<notin> set (VALID_TRANSITIONS QUESTION) \<and>
   result_of (hostAction parseFloat_digits subtract_exact ''m1'' Action_skip 5000 world_one) = Inr () \<and>
   phase_of (world_of (hostAction parseFloat_digits subtract_exact ''m1'' Action_skip 5000 world_one)) ''m1'' =
     Some POSTGAME"
  by code_simp

text \<open>\<open>triggerStretch\<close> succeeds from every stored phase.\<close>

lemma triggerStretch_unguarded:
  assumes "redisState w mid = Some s"
  shows "\<exists>w'. triggerStretch mid now w = Return () w' \<and> phase_of w' mid = Some STRETCH"
  using assms
  by (simp add: triggerStretch_def loadState_def saveState_def phase_of_def Let_def)

section \<open>A start that fails validation\<close>





text \<open>
  C6, what the code does.  On a match in the lobby whose first question fails validation,
  \<open>startMatch\<close> throws \<open>Invalid question\<close> and leaves the stored match state as it
  was, but the row of the match has been updated before the validation: its status is
  \<open>IN_PROGRESS\<close> and \<open>startedAt\<close> is set.
\<close>

theorem startMatch_invalid_question_marks_match_started:
  assumes "redisState w mid = Some s" and "s_phase s = LOBBY"
    and "matches w mid = Some match"
    and "js_index (m_innings match) 0 = Some first"
    and "js_index (questions first) 0 = Some qn"
    and "validateQuestion qn = Invalid msg"
  shows "startMatch mid now w =
           Throw (InvalidQuestion msg)
             (w\<lparr>matches := (matches w)(mid \<mapsto>
                   match\<lparr>m_status := IN_PROGRESS, m_startedAt := Some now\<rparr>)\<rparr>)"
  using assms by (simp add: startMatch_def loadState_def Let_def)

theorem startMatch_invalid_question_marks_match_started_witness:
  "startMatch ''m2'' 5000 world_bad =
     Throw (InvalidQuestion ''Question text is required'')
       (world_bad\<lparr>matches := (matches world_bad)(''m2'' \<mapsto>
            match_bad\<lparr>m_status := IN_PROGRESS, m_startedAt := Some 5000\<rparr>)\<rparr>) \<and>
   map_option (\<lambda>m. (m_status m, m_startedAt m)) (matches world_bad ''m2'') =
     Some (Status_LOBBY, None) \<and>
   map_option (\<lambda>m. (m_status m, m_startedAt m))
     (matches (world_of (startMatch ''m2'' 5000 world_bad)) ''m2'') =
     Some (IN_PROGRESS, Some 5000) \<and>
   redisState (world_of (startMatch ''m2'' 5000 world_bad)) ''m2'' = Some state_lobby"
proof -
  have a: "redisState world_bad ''m2'' = Some state_lobby" "s_phase state_lobby = LOBBY"
    "matches world_bad ''m2'' = Some match_bad"
    "js_index (m_innings match_bad) 0 =
       Some \<lparr>theme = ''Historic Moments'', questions = [q_blank]\<rparr>"
    "js_index (questions \<lparr>theme = ''Historic Moments'', questions = [q_blank]\<rparr>) 0 =
       Some q_blank"
    by (simp_all add: world_bad_def state_lobby_def match_bad_def js_index_def)
  have v: "validateQuestion q_blank = Invalid ''Question text is required''"
    by code_simp
  note t = startMatch_invalid_question_marks_match_started[OF a v, of 5000]
  have b: "map_option (\<lambda>m. (m_status m, m_startedAt m)) (matches world_bad ''m2'') =
     Some (Status_LOBBY, None)"
    by (simp add: world_bad_def match_bad_def)
  from t a b show ?thesis by simp
qed

section \<open>Which submissions the handler accepts\<close>







lemma findPlayer_redisState [simp]: "findPlayer (w\<lparr>redisState := x\<rparr>) pid = findPlayer w pid"
  by (simp add: findPlayer_def)









text \<open>
  The fields of the question id are read by \<open>parseInt\<close>, which skips white space of any
  kind before the digits and ignores what follows them: the id \<open>m1-0-\<close> followed by a
  no-break space (U+00A0) and \<open>0\<close> names question \<open>m1-0-0\<close> as well, and its answer is
  stored.
\<close>

lemma question_id_with_no_break_space:
  "resolveQuestion match_one questionId_nbsp = Some q_mc_example \<and>
   resolveQuestion match_one ''m1-0- 0x'' = Some q_mc_example \<and>
   result_of (answerSubmit (Some ''pA'') ''m1'' questionId_nbsp
                ''Blue Jays'' 2000 world_one) = Inr () \<and>
   map answer_key
     (matchAnswers (world_of (answerSubmit (Some ''pA'') ''m1''
                                questionId_nbsp ''Blue Jays'' 2000
                                world_one))) =
     [(''m1'', ''pA'', 0, 0)]"
  by code_simp
section \<open>The leaderboard\<close>

lemma compareScores_le: "(compareScores a b \<le> 0) = ranks_before a b"
  by (auto simp: compareScores_def ranks_before_def)

lemma ranks_before_total: "ranks_before a b \<or> ranks_before b a"
  by (auto simp: ranks_before_def)

lemma ranks_before_trans: "ranks_before a b \<Longrightarrow> ranks_before b c \<Longrightarrow> ranks_before a c"
  by (auto simp: ranks_before_def)

lemma set_insert_by: "set (insert_by cmp x ys) = insert x (set ys)"
  by (induction ys) auto

lemma mset_insert_by: "mset (insert_by cmp x ys) = add_mset x (mset ys)"
  by (induction ys) auto

lemma mset_js_sort: "mset (js_sort cmp xs) = mset xs"
  by (induction xs) (auto simp: js_sort_def mset_insert_by)

lemma sorted_insert_by:
  "sorted_wrt ranks_before ys \<Longrightarrow> sorted_wrt ranks_before (insert_by compareScores x ys)"
proof (induction ys)
  case Nil
  then show ?case by simp
next
  case (Cons y ys)
  show ?case
  proof (cases "compareScores x y \<le> 0")
    case True
    then have xy: "ranks_before x y" by (simp add: compareScores_le)
    with Cons.prems have "\<forall>z\<in>set ys. ranks_before x z"
      by (auto intro: ranks_before_trans)
    with True xy Cons.prems show ?thesis by simp
  next
    case False
    then have "ranks_before y x"
      using ranks_before_total[of x y] by (simp add: compareScores_le)
    with False Cons show ?thesis by (auto simp: set_insert_by)
  qed
qed

lemma sorted_js_sort: "sorted_wrt ranks_before (js_sort compareScores xs)"
  by (induction xs) (auto simp: js_sort_def sorted_insert_by)

lemma filter_insert_by:
  "filter (\<lambda>y. (ps_runs y, ps_totalTimeMs y) = k) (insert_by compareScores x ys) =
     (if (ps_runs x, ps_totalTimeMs x) = k
      then x # filter (\<lambda>y. (ps_runs y, ps_totalTimeMs y) = k) ys
      else filter (\<lambda>y. (ps_runs y, ps_totalTimeMs y) = k) ys)"
  by (induction ys) (auto simp: compareScores_def split: if_splits)

lemma filter_js_sort:
  "filter (\<lambda>y. (ps_runs y, ps_totalTimeMs y) = k) (js_sort compareScores xs) =
   filter (\<lambda>y. (ps_runs y, ps_totalTimeMs y) = k) xs"
  by (induction xs) (auto simp: js_sort_def filter_insert_by)

lemma foldl_runs:
  "foldl (\<lambda>sum a. if \<not> a_isCorrect a then sum
                   else sum + (if a_bonusAwarded a then 4 else 1)) z xs =
   z + (\<Sum>a\<leftarrow>xs. if a_isCorrect a then (if a_bonusAwarded a then 4 else 1) else (0::int))"
  by (induction xs arbitrary: z) auto

lemma foldl_time:
  "foldl (\<lambda>sum a. sum + a_answerMs a) z xs = z + (\<Sum>a\<leftarrow>xs. a_answerMs a)"
  by (induction xs arbitrary: z) auto

lemma playerScore_fields:
  "ps_playerId (playerScore w mid p) = p_id p \<and>
   ps_nickname (playerScore w mid p) = p_nickname p \<and>
   ps_runs (playerScore w mid p) =
     (\<Sum>a\<leftarrow>answers_of w mid (p_id p).
        if a_isCorrect a then (if a_bonusAwarded a then 4 else 1) else 0) \<and>
   ps_correct (playerScore w mid p) = int (length (filter a_isCorrect (answers_of w mid (p_id p)))) \<and>
   ps_total (playerScore w mid p) = int (length (answers_of w mid (p_id p))) \<and>
   ps_totalTimeMs (playerScore w mid p) = (\<Sum>a\<leftarrow>answers_of w mid (p_id p). a_answerMs a)"
  by (simp add: playerScore_def Let_def answers_of_def foldl_runs foldl_time)

lemma updateLeaderboard_Return:
  assumes "updateLeaderboard mid scores w = Return u w'"
  shows "\<exists>s. redisState w mid = Some s \<and>
              w' = saveState mid (s\<lparr>s_leaderboard := js_sort compareScores scores\<rparr>) w"
  using assms by (auto simp: updateLeaderboard_def loadState_def split: option.splits)

text \<open>
  C8.  When the \<open>answer:submit\<close> handler recomputes the leaderboard, the stored state
  changes in its leaderboard only; the new leaderboard holds exactly the scores of the
  match's players that have not left, each computed from that player's rows of the ledger
  (runs: 4 for a correct answer with bonus, 1 for a correct answer without, 0 otherwise;
  the numbers of correct answers and of answers; the sum of \<open>answerMs\<close>); it is sorted
  by descending runs, ties broken by ascending total time; and scores that agree in runs and
  total time keep the order of the input, so the result is determined by the input.
\<close>

theorem leaderboard_rebuilt_and_sorted:
  assumes "updateLeaderboard mid (playerScores w mid) w = Return u w'"
  shows "\<exists>s s'. redisState w mid = Some s \<and> redisState w' mid = Some s' \<and>
           s' = s\<lparr>s_leaderboard := s_leaderboard s'\<rparr> \<and>
           mset (s_leaderboard s') =
             mset (map (playerScore w mid)
                    (filter (\<lambda>p. p_matchId p = mid \<and> p_leftAt p = None) (matchPlayers w))) \<and>
           sorted_wrt ranks_before (s_leaderboard s') \<and>
           (\<forall>k. filter (\<lambda>y. (ps_runs y, ps_totalTimeMs y) = k) (s_leaderboard s') =
                filter (\<lambda>y. (ps_runs y, ps_totalTimeMs y) = k) (playerScores w mid)) \<and>
           (\<forall>p. ps_playerId (playerScore w mid p) = p_id p \<and>
                ps_runs (playerScore w mid p) =
                  (\<Sum>a\<leftarrow>answers_of w mid (p_id p).
                     if a_isCorrect a then (if a_bonusAwarded a then 4 else 1) else 0) \<and>
                ps_correct (playerScore w mid p) =
                  int (length (filter a_isCorrect (answers_of w mid (p_id p)))) \<and>
                ps_total (playerScore w mid p) = int (length (answers_of w mid (p_id p))) \<and>
                ps_totalTimeMs (playerScore w mid p) =
                  (\<Sum>a\<leftarrow>answers_of w mid (p_id p). a_answerMs a))"
proof -
  from updateLeaderboard_Return[OF assms] obtain s where
    s: "redisState w mid = Some s"
    and w': "w' = saveState mid (s\<lparr>s_leaderboard := js_sort compareScores (playerScores w mid)\<rparr>) w"
    by blast
  let ?s' = "s\<lparr>s_leaderboard := js_sort compareScores (playerScores w mid)\<rparr>"
  have 1: "redisState w' mid = Some ?s'" by (simp add: w' saveState_def)
  have 2: "?s' = s\<lparr>s_leaderboard := s_leaderboard ?s'\<rparr>" by simp
  have 3: "mset (s_leaderboard ?s') =
             mset (map (playerScore w mid)
                    (filter (\<lambda>p. p_matchId p = mid \<and> p_leftAt p = None) (matchPlayers w)))"
    by (simp add: mset_js_sort playerScores_def)
  have 4: "sorted_wrt ranks_before (s_leaderboard ?s')" by (simp add: sorted_js_sort)
  have 5: "\<forall>k. filter (\<lambda>y. (ps_runs y, ps_totalTimeMs y) = k) (s_leaderboard ?s') =
                filter (\<lambda>y. (ps_runs y, ps_totalTimeMs y) = k) (playerScores w mid)"
    by (simp add: filter_js_sort)
  from s 1 2 3 4 5 playerScore_fields show ?thesis by blast
qed

lemma leaderboard_after_b:
  "result_of (updateLeaderboard ''m1'' (playerScores world_after_b ''m1'') world_after_b) = Inr () \<and>
   map_option (\<lambda>s. map (\<lambda>p. (ps_playerId p, ps_runs p, ps_correct p, ps_total p, ps_totalTimeMs p))
                    (s_leaderboard s))
     (redisState (world_of (updateLeaderboard ''m1'' (playerScores world_after_b ''m1'')
                              world_after_b)) ''m1'') =
     Some [(''pA'', 4, 1, 1, 2000), (''pB'', 1, 1, 1, 10000)]"
  unfolding world_after_b_def world_after_a_def by code_simp

theorem leaderboard_rebuilt_and_sorted_witness:
  "\<exists>s'. redisState (world_of (updateLeaderboard ''m1'' (playerScores world_after_b ''m1'')
                               world_after_b)) ''m1'' = Some s' \<and>
        sorted_wrt ranks_before (s_leaderboard s') \<and>
        map (\<lambda>p. (ps_playerId p, ps_runs p, ps_correct p, ps_total p, ps_totalTimeMs p))
          (s_leaderboard s') = [(''pA'', 4, 1, 1, 2000), (''pB'', 1, 1, 1, 10000)]"
proof -
  from leaderboard_after_b have
    "updateLeaderboard ''m1'' (playerScores world_after_b ''m1'') world_after_b =
       Return () (world_of (updateLeaderboard ''m1'' (playerScores world_after_b ''m1'')
                              world_after_b))"
    by (intro outcome_Return) simp
  from leaderboard_rebuilt_and_sorted[OF this] obtain s' where
    "redisState (world_of (updateLeaderboard ''m1'' (playerScores world_after_b ''m1'')
                               world_after_b)) ''m1'' = Some s'"
    "sorted_wrt ranks_before (s_leaderboard s')"
    by blast
  with leaderboard_after_b show ?thesis by auto
qed

section \<open>The stretch timer\<close>







text \<open>
  After the stretch that \<open>nextQuestion\<close> triggers at the end of inning index 6 the stored
  position is still the last question of that inning.  The callback reads it again and
  triggers the stretch once more; the first question of inning index 7 is not shown.
\<close>

lemma stretch_callback_triggers_stretch_again:
  assumes "redisState w mid = Some s" and "matches w mid = Some match"
    and "s_inning s = 6" and "js_index (m_innings match) 6 = Some current"
    and "s_questionIdx s + 1 \<ge> int (length (questions current))"
    and "7 < int (length (m_innings match))"
  shows "\<exists>w'. stretchTimeout mid captured now w = Return () w' \<and>
           map_option (\<lambda>s. (s_phase s, s_inning s, s_questionIdx s)) (redisState w' mid) =
             Some (STRETCH, 6, s_questionIdx s) \<and>
           timers w' = timers w @ [(mid, now + 30000,
                                    s\<lparr>s_phase := STRETCH, s_endsAt := Some (now + 30000)\<rparr>)]"
  using assms
  by (simp add: stretchTimeout_def nextQuestion_def loadState_def Let_def triggerStretch_def
      saveState_def)

end
